theory Spec2Isabelle
  imports Complex_Main "HOL-Library.Sublist"
begin

section \<open>Decimal strings and big integers\<close>

text \<open>
  The wallet moves amounts around as JavaScript strings and \<open>bigint\<close>s. A \<open>bigint\<close> is an
  unbounded integer (\<open>int\<close>); a string is a \<open>char list\<close>. This section models the
  conversions between the two that the wallet uses: \<open>bigint.toString()\<close>, \<open>BigInt(string)\<close>
  and the two functions of the ethers library, \<open>parseUnits\<close> and \<open>formatUnits\<close>.
\<close>

definition is_digit :: "char \<Rightarrow> bool" where
  "is_digit c = (48 \<le> (of_char c :: nat) \<and> (of_char c :: nat) \<le> 57)"

definition digit_val :: "char \<Rightarrow> nat" where
  "digit_val c = of_char c - 48"

definition digit_char :: "nat \<Rightarrow> char" where
  "digit_char n = char_of (48 + n)"

definition digits_val :: "string \<Rightarrow> nat" where
  "digits_val ds = foldl (\<lambda>n c. 10 * n + digit_val c) 0 ds"

fun nat_toString :: "nat \<Rightarrow> string" where
  "nat_toString n =
     (if n < 10 then [digit_char n]
      else nat_toString (n div 10) @ [digit_char (n mod 10)])"

declare nat_toString.simps [simp del]

text \<open>\<open>bigint.toString()\<close>: decimal digits, a leading minus sign for a negative value.\<close>

definition bigint_toString :: "int \<Rightarrow> string" where
  "bigint_toString i =
     (if i < 0 then CHR ''-'' # nat_toString (nat (- i)) else nat_toString (nat i))"

text \<open>
  \<open>BigInt(string)\<close> on decimal text: an optional sign and digits; the empty string is \<open>0n\<close>;
  anything else raises a SyntaxError (\<open>None\<close>). JavaScript also accepts surrounding white
  space and the prefixes \<open>0x\<close>, \<open>0o\<close>, \<open>0b\<close>; the wallet only ever passes the output of
  \<open>toString()\<close>, so those forms are left out.
\<close>

definition BigInt :: "string \<Rightarrow> int option" where
  "BigInt s =
     (case s of
        [] \<Rightarrow> Some 0
      | c # r \<Rightarrow>
          if c = CHR ''-'' \<or> c = CHR ''+'' then
            (if r \<noteq> [] \<and> list_all is_digit r
             then Some ((if c = CHR ''-'' then - 1 else 1) * int (digits_val r))
             else None)
          else if list_all is_digit s then Some (int (digits_val s))
          else None)"

datatype error =
    Error string
  | InvalidFixedNumber
  | DecimalsTooLarge
  | TooManyDecimals
  | Overflow
  | SyntaxError
  | ReadFailed
  | EncodingFailed
  | UndefinedContract
  | SubmissionFailed

text \<open>
  The regular expression of \<open>FixedNumber.fromString\<close>,
  \<^verbatim>\<open>/^(-?)([0-9]*)\.?([0-9]*)$/\<close>, with the requirement that the two digit groups are not
  both empty. The result is the three groups: sign, whole digits, fractional digits.
\<close>

definition match_fixed :: "string \<Rightarrow> (bool \<times> string \<times> string) option" where
  "match_fixed v =
     (let (neg, r) = (case v of [] \<Rightarrow> (False, v)
                      | c # t \<Rightarrow> if c = CHR ''-'' then (True, t) else (False, v));
          wdigits = takeWhile is_digit r;
          r1 = dropWhile is_digit r;
          r2 = (case r1 of [] \<Rightarrow> r1 | c # t \<Rightarrow> if c = CHR ''.'' then t else r1);
          fdigits = takeWhile is_digit r2;
          rest = dropWhile is_digit r2
      in if rest = [] \<and> 0 < length wdigits + length fdigits then Some (neg, wdigits, fdigits)
         else None)"

text \<open>
  The bound of \<open>checkValue\<close> for the signed 512-bit format both conversions use:
  \<open>limit = 1 << (width - 1)\<close>, and a value must satisfy \<open>-limit \<le> value < limit\<close>.
\<close>

definition fixed_limit :: int where
  "fixed_limit = 2 ^ 511"

text \<open>
  \<open>ethers.parseUnits(value, decimals)\<close>, which is
  \<open>FixedNumber.fromString(value, {decimals, width: 512}).value\<close>: the fractional digits are
  padded with zeros to \<open>decimals\<close> places, digits beyond that must all be zero, the digits
  are read as one integer, and the result must fit a signed 512-bit number. The format
  itself is rejected when \<open>decimals\<close> exceeds 80.
\<close>

definition parseUnits :: "string \<Rightarrow> nat \<Rightarrow> error + int" where
  "parseUnits v decimals =
     (case match_fixed v of
        None \<Rightarrow> Inl InvalidFixedNumber
      | Some (neg, wdigits0, fdigits) \<Rightarrow>
          if 80 < decimals then Inl DecimalsTooLarge
          else
            let wdigits = (if wdigits0 = [] then ''0'' else wdigits0);
                decimal = fdigits @ replicate (decimals - length fdigits) (CHR ''0'')
            in if \<not> list_all (\<lambda>c. c = CHR ''0'') (drop decimals decimal)
               then Inl TooManyDecimals
               else
                 let n = int (digits_val (wdigits @ take decimals decimal));
                     val = (if neg then - n else n)
                 in if - fixed_limit \<le> val \<and> val < fixed_limit then Inr val else Inl Overflow)"

text \<open>
  The \<open>toString(val, decimals)\<close> helper behind \<open>FixedNumber.toString\<close>: the digits are
  padded to at least one whole digit, the decimal point is inserted, then leading zeros
  of the whole part and trailing zeros of the fraction are trimmed, one digit staying on
  each side of the point.
\<close>

definition trim_whole :: "string \<Rightarrow> string" where
  "trim_whole w = (case dropWhile (\<lambda>c. c = CHR ''0'') w of [] \<Rightarrow> ''0'' | c # r \<Rightarrow> c # r)"

definition trim_frac :: "string \<Rightarrow> string" where
  "trim_frac f =
     (case dropWhile (\<lambda>c. c = CHR ''0'') (rev f) of [] \<Rightarrow> ''0'' | c # r \<Rightarrow> rev (c # r))"

definition fixed_toString :: "int \<Rightarrow> nat \<Rightarrow> string" where
  "fixed_toString val decimals =
     (let negative = (if val < 0 then ''-'' else '''');
          str = nat_toString (nat \<bar>val\<bar>)
      in if decimals = 0 then negative @ str
         else
           let padded = replicate (Suc decimals - length str) (CHR ''0'') @ str;
               index = length padded - decimals
           in negative @ trim_whole (take index padded) @ ''.''
                @ trim_frac (drop index padded))"

text \<open>
  \<open>getBigInt\<close> of ethers on a string argument, and \<open>ethers.formatUnits(value, decimals)\<close>,
  which is \<open>FixedNumber.fromValue(value, decimals, {decimals, width: 512}).toString()\<close>.
\<close>

definition getBigInt :: "string \<Rightarrow> error + int" where
  "getBigInt s =
     (case s of
        [] \<Rightarrow> Inl SyntaxError
      | c # r \<Rightarrow>
          (case (if c = CHR ''-'' \<and> (case r of [] \<Rightarrow> True | d # _ \<Rightarrow> d \<noteq> CHR ''-'')
                 then map_option uminus (BigInt r) else BigInt s) of
             None \<Rightarrow> Inl SyntaxError
           | Some i \<Rightarrow> Inr i))"

definition formatUnits :: "string \<Rightarrow> nat \<Rightarrow> error + string" where
  "formatUnits v decimals =
     (if 80 < decimals then Inl DecimalsTooLarge
      else case getBigInt v of
             Inl e \<Rightarrow> Inl e
           | Inr val \<Rightarrow>
               if - fixed_limit \<le> val \<and> val < fixed_limit then Inr (fixed_toString val decimals)
               else Inl Overflow)"

text \<open>
  The number a decimal string denotes, as a rational: sign, whole digits and fractional
  digits, the groups of \<^const>\<open>match_fixed\<close>.
\<close>

definition amount_value :: "bool \<times> string \<times> string \<Rightarrow> rat" where
  "amount_value m =
     (case m of (neg, wdigits, fdigits) \<Rightarrow>
        (if neg then - 1 else 1)
        * (of_nat (digits_val wdigits) + of_nat (digits_val fdigits) / 10 ^ length fdigits))"


section \<open>The chain, the wallet and the observable world\<close>

type_synonym address = string

text \<open>The configuration in \<^verbatim>\<open>constants/contract.ts\<close>.\<close>

definition AAVE :: address where
  "AAVE = ''0x5362dBb1e601abF3a4c14c22ffEdA64042E5eAA3''"

definition SILO :: address where
  "SILO = ''0x9Fa3C1E843d8eb1387827E5d77c07E8BB97B1e50''"

definition USDC_TOKEN :: address where
  "USDC_TOKEN = ''0x29219dd400f2Bf60E5a23d13Be72B486D4038894''"

definition B_USDC_TOKEN :: address where
  "B_USDC_TOKEN = ''0x322e1d5384aa4ED66AeCa770B95686271de61dc3''"

definition SILO_COLLATERAL :: string where
  "SILO_COLLATERAL = ''1''"

text \<open>
  A contract handle is the address it was created for. A transaction step is what
  \<open>prepareContractCall\<close> or the ERC-20 \<open>approve\<close> extension was given: nothing is encoded or
  sent until the step is submitted. A submission is one call of \<open>sendTransaction\<close> or of
  \<open>sendBatchTransaction\<close>, with the sending account.
\<close>

datatype contract = Contract (contract_address: address)

datatype param = PString string | PArray "string list"

datatype step =
    PreparedCall contract string "param list"
  | Erc20Approve contract address string

datatype submission =
    Single step address
  | Batch "step list" address

datatype line = Log string | LogError string error

text \<open>
  The collaborators the wallet cannot control. Every read of the chain and every
  submission is one numbered interaction: its outcome may depend on the number, so two
  reads of the same value need not agree, and \<open>None\<close> is a failed interaction (the promise
  rejects). \<open>encodeFunctionData\<close> is the encoder of \<open>new ethers.Interface(SILO_ABI)\<close>; the
  ABI is configuration, so the encoder is a parameter, and \<open>None\<close> means that building the
  interface or encoding the call throws.
\<close>

record chain =
  decimals_at :: "nat \<Rightarrow> address \<Rightarrow> nat option"
  balanceOf_at :: "nat \<Rightarrow> address \<Rightarrow> address \<Rightarrow> nat option"
  sendTransaction_at :: "nat \<Rightarrow> step \<Rightarrow> address \<Rightarrow> string option"
  sendBatchTransaction_at :: "nat \<Rightarrow> step list \<Rightarrow> address \<Rightarrow> string option"
  encodeFunctionData :: "string \<Rightarrow> string list \<Rightarrow> string option"

text \<open>
  What an observer sees: the number of interactions so far, the console, and every
  submission handed to the wallet collaborator, in order.
\<close>

record world =
  tick :: nat
  console :: "line list"
  sent :: "submission list"

type_synonym 'a outcome = "(error + 'a) \<times> world"

text \<open>
  The fields of \<open>SonicSmartWallet\<close> the operations read. A field that was never assigned is
  \<open>None\<close>; \<open>getAccount()\<close> of a smart wallet may itself return \<open>undefined\<close>.
\<close>

datatype smart_wallet = SmartWallet (getAccount: "address option")

record wallet =
  smartWalletInstance :: "smart_wallet option"
  usdcContract :: "contract option"
  aaveContract :: "contract option"
  siloContract :: "contract option"
  siloBusdContract :: "contract option"

definition console_log :: "string \<Rightarrow> world \<Rightarrow> world" where
  "console_log msg s = s\<lparr>console := console s @ [Log msg]\<rparr>"

definition console_error :: "string \<Rightarrow> error \<Rightarrow> world \<Rightarrow> world" where
  "console_error msg e s = s\<lparr>console := console s @ [LogError msg e]\<rparr>"

definition decimals :: "chain \<Rightarrow> address \<Rightarrow> world \<Rightarrow> nat outcome" where
  "decimals ch token s =
     (case decimals_at ch (tick s) token of None \<Rightarrow> Inl ReadFailed | Some d \<Rightarrow> Inr d,
      s\<lparr>tick := Suc (tick s)\<rparr>)"

text \<open>Reading a property of an unassigned contract field throws before anything is read.\<close>

definition balanceOf :: "chain \<Rightarrow> contract option \<Rightarrow> address \<Rightarrow> world \<Rightarrow> nat outcome" where
  "balanceOf ch c holder s =
     (case c of
        None \<Rightarrow> (Inl UndefinedContract, s)
      | Some (Contract a) \<Rightarrow>
          (case balanceOf_at ch (tick s) a holder of None \<Rightarrow> Inl ReadFailed | Some b \<Rightarrow> Inr b,
           s\<lparr>tick := Suc (tick s)\<rparr>))"

definition sendTransaction :: "chain \<Rightarrow> step \<Rightarrow> address \<Rightarrow> world \<Rightarrow> string outcome" where
  "sendTransaction ch tx account s =
     (case sendTransaction_at ch (tick s) tx account of
        None \<Rightarrow> Inl SubmissionFailed | Some h \<Rightarrow> Inr h,
      s\<lparr>tick := Suc (tick s), sent := sent s @ [Single tx account]\<rparr>)"

definition sendBatchTransaction ::
  "chain \<Rightarrow> step list \<Rightarrow> address \<Rightarrow> world \<Rightarrow> string outcome" where
  "sendBatchTransaction ch txs account s =
     (case sendBatchTransaction_at ch (tick s) txs account of
        None \<Rightarrow> Inl SubmissionFailed | Some h \<Rightarrow> Inr h,
      s\<lparr>tick := Suc (tick s), sent := sent s @ [Batch txs account]\<rparr>)"

text \<open>The \<open>catch (error) { console.error(label, error); throw error; }\<close> around each operation.\<close>

definition log_and_rethrow :: "string \<Rightarrow> 'a outcome \<Rightarrow> 'a outcome" where
  "log_and_rethrow label r =
     (case r of (Inl e, s) \<Rightarrow> (Inl e, console_error label e s) | (Inr v, s) \<Rightarrow> (Inr v, s))"

section \<open>Unit conversion and the balance guard\<close>

definition getTokenAmount_catch :: "string \<Rightarrow> error \<Rightarrow> world \<Rightarrow> string outcome" where
  "getTokenAmount_catch amount e s =
     (let s1 = console_log ''Falling back to 6 decimals for USDC''
                 (console_error ''Error converting token amount:'' e s)
      in case parseUnits amount 6 of
           Inl e' \<Rightarrow> (Inl e', s1)
         | Inr v \<Rightarrow> (Inr (bigint_toString v), s1))"

text \<open>
  \<open>getTokenAmount\<close>: the \<open>try\<close> block holds both the read of the token's decimals and the
  conversion, so a failure of either one reaches the \<open>catch\<close> block. Creating the
  contract handle with \<open>getContract\<close> is part of the read: if it throws, the read has
  failed.
\<close>

definition getTokenAmount :: "chain \<Rightarrow> string \<Rightarrow> address \<Rightarrow> world \<Rightarrow> string outcome" where
  "getTokenAmount ch amount tokenAddress s =
     (case decimals ch tokenAddress s of
        (Inl e, s1) \<Rightarrow> getTokenAmount_catch amount e s1
      | (Inr tokenDecimals, s1) \<Rightarrow>
          (case parseUnits amount tokenDecimals of
             Inl e \<Rightarrow> getTokenAmount_catch amount e s1
           | Inr v \<Rightarrow> (Inr (bigint_toString v), s1)))"

definition insufficient_message :: "string \<Rightarrow> string \<Rightarrow> string" where
  "insufficient_message amount available =
     ''Insufficient USDC balance. Required: '' @ amount @ '' USDC, Available: ''
       @ available @ '' USDC''"

definition hasEnoughUSDC_try :: "chain \<Rightarrow> wallet \<Rightarrow> string \<Rightarrow> world \<Rightarrow> bool outcome" where
  "hasEnoughUSDC_try ch w amount s =
     (case (smartWalletInstance w, usdcContract w) of
        (Some inst, Some usdc) \<Rightarrow>
          (case getAccount inst of
             None \<Rightarrow> (Inl (Error ''Failed to get account from smart wallet''), s)
           | Some account \<Rightarrow>
               (case getTokenAmount ch amount USDC_TOKEN s of
                  (Inl e, s1) \<Rightarrow> (Inl e, s1)
                | (Inr requiredAmount, s1) \<Rightarrow>
                    (case balanceOf ch (Some usdc) account s1 of
                       (Inl e, s2) \<Rightarrow> (Inl e, s2)
                     | (Inr balance, s2) \<Rightarrow>
                         (case (BigInt (bigint_toString (int balance)), BigInt requiredAmount) of
                            (Some b, Some r) \<Rightarrow>
                              if r \<le> b then (Inr True, s2)
                              else
                                (case formatUnits (bigint_toString (int balance)) 6 of
                                   Inl e \<Rightarrow> (Inl e, s2)
                                 | Inr available \<Rightarrow>
                                     (Inr False,
                                      console_log (insufficient_message amount available) s2))
                          | _ \<Rightarrow> (Inl SyntaxError, s2)))))
      | _ \<Rightarrow> (Inl (Error ''Smart wallet or USDC contract not initialized''), s))"

definition hasEnoughUSDC :: "chain \<Rightarrow> wallet \<Rightarrow> string \<Rightarrow> world \<Rightarrow> bool outcome" where
  "hasEnoughUSDC ch w amount s =
     log_and_rethrow ''Error checking USDC balance:'' (hasEnoughUSDC_try ch w amount s)"

section \<open>Calldata for the router's multicall\<close>

text \<open>
  Each generator wraps the encoder in \<open>try\<close>/\<open>catch\<close>: an encoding failure is logged and the
  empty string is returned in place of the calldata.
\<close>

definition generateTransferFromCalldata ::
  "chain \<Rightarrow> string \<Rightarrow> string \<Rightarrow> string \<Rightarrow> world \<Rightarrow> string \<times> world" where
  "generateTransferFromCalldata ch from to amount s =
     (case encodeFunctionData ch ''transferFrom'' [from, to, amount] of
        Some d \<Rightarrow> (d, s)
      | None \<Rightarrow> ([], console_error ''Error generating approve calldata:'' EncodingFailed s))"

definition generateApproveCalldata ::
  "chain \<Rightarrow> string \<Rightarrow> string \<Rightarrow> string \<Rightarrow> world \<Rightarrow> string \<times> world" where
  "generateApproveCalldata ch owner spender amount s =
     (case encodeFunctionData ch ''approve'' [owner, spender, amount] of
        Some d \<Rightarrow> (d, s)
      | None \<Rightarrow> ([], console_error ''Error generating approve calldata:'' EncodingFailed s))"

definition generateDepositCalldata ::
  "chain \<Rightarrow> string \<Rightarrow> string \<Rightarrow> string \<Rightarrow> world \<Rightarrow> string \<times> world" where
  "generateDepositCalldata ch borrowedAsset amount collateral s =
     (case encodeFunctionData ch ''deposit'' [borrowedAsset, amount, collateral] of
        Some d \<Rightarrow> (d, s)
      | None \<Rightarrow> ([], console_error ''Error generating deposit calldata:'' EncodingFailed s))"

section \<open>The four operations\<close>

definition approveAndSupplyToAave_try ::
  "chain \<Rightarrow> wallet \<Rightarrow> string \<Rightarrow> world \<Rightarrow> string outcome" where
  "approveAndSupplyToAave_try ch w amount s =
     (case hasEnoughUSDC ch w amount s of
        (Inl e, s1) \<Rightarrow> (Inl e, s1)
      | (Inr hasBalance, s1) \<Rightarrow>
          if \<not> hasBalance then (Inl (Error ''Insufficient USDC balance for Aave supply''), s1)
          else
            (case smartWalletInstance w of
               None \<Rightarrow> (Inl (Error ''Smart wallet not initialized''), s1)
             | Some inst \<Rightarrow>
            (case usdcContract w of
               None \<Rightarrow> (Inl (Error ''USDC contract not initialized''), s1)
             | Some usdc \<Rightarrow>
            (case aaveContract w of
               None \<Rightarrow> (Inl (Error ''Contract 1 not initialized''), s1)
             | Some aave \<Rightarrow>
            (case getAccount inst of
               None \<Rightarrow> (Inl (Error ''Failed to get account from smart wallet''), s1)
             | Some account \<Rightarrow>
            (case getTokenAmount ch amount USDC_TOKEN s1 of
               (Inl e, s2) \<Rightarrow> (Inl e, s2)
             | (Inr amountDecimals, s2) \<Rightarrow>
                 let approveTransaction =
                       PreparedCall usdc ''approve'' [PString AAVE, PString amountDecimals];
                     refferalCode = ''0'';
                     depositTransaction =
                       PreparedCall aave ''supply''
                         [PString USDC_TOKEN, PString amountDecimals, PString account,
                          PString refferalCode];
                     combinedTransaction = [approveTransaction, depositTransaction]
                 in (case sendBatchTransaction ch combinedTransaction account s2 of
                       (Inl e, s3) \<Rightarrow> (Inl e, s3)
                     | (Inr h, s3) \<Rightarrow>
                         (Inr h, console_log (''Deposit to AAVE completed: '' @ h) s3))))))))"

definition approveAndSupplyToAave ::
  "chain \<Rightarrow> wallet \<Rightarrow> string \<Rightarrow> world \<Rightarrow> string outcome" where
  "approveAndSupplyToAave ch w amount s =
     log_and_rethrow ''Error in depositing to Aave:'' (approveAndSupplyToAave_try ch w amount s)"

definition withdrawFromAave_try ::
  "chain \<Rightarrow> wallet \<Rightarrow> string \<Rightarrow> world \<Rightarrow> string outcome" where
  "withdrawFromAave_try ch w amount s =
     (case smartWalletInstance w of
        None \<Rightarrow> (Inl (Error ''Smart wallet not initialized''), s)
      | Some inst \<Rightarrow>
     (case aaveContract w of
        None \<Rightarrow> (Inl (Error ''Contract 1 not initialized''), s)
      | Some aave \<Rightarrow>
     (case getAccount inst of
        None \<Rightarrow> (Inl (Error ''Failed to get account from smart wallet''), s)
      | Some account \<Rightarrow>
     (case getTokenAmount ch amount USDC_TOKEN s of
        (Inl e, s1) \<Rightarrow> (Inl e, s1)
      | (Inr amountDecimals, s1) \<Rightarrow>
          let withdrawTransaction =
                PreparedCall aave ''withdraw''
                  [PString USDC_TOKEN, PString amountDecimals, PString account]
          in (case sendTransaction ch withdrawTransaction account s1 of
                (Inl e, s2) \<Rightarrow> (Inl e, s2)
              | (Inr h, s2) \<Rightarrow>
                  (Inr h, console_log (''Withdraw from Aave completed: '' @ h) s2))))))"

definition withdrawFromAave :: "chain \<Rightarrow> wallet \<Rightarrow> string \<Rightarrow> world \<Rightarrow> string outcome" where
  "withdrawFromAave ch w amount s =
     log_and_rethrow ''Error in Function 2:'' (withdrawFromAave_try ch w amount s)"

definition approveAndDepositToSilo_try ::
  "chain \<Rightarrow> wallet \<Rightarrow> string \<Rightarrow> world \<Rightarrow> string outcome" where
  "approveAndDepositToSilo_try ch w amount s =
     (case hasEnoughUSDC ch w amount s of
        (Inl e, s1) \<Rightarrow> (Inl e, s1)
      | (Inr hasBalance, s1) \<Rightarrow>
          if \<not> hasBalance then (Inl (Error ''Insufficient USDC balance for Silo deposit''), s1)
          else
            (case smartWalletInstance w of
               None \<Rightarrow> (Inl (Error ''Smart wallet not initialized''), s1)
             | Some inst \<Rightarrow>
            (case usdcContract w of
               None \<Rightarrow> (Inl (Error ''USDC contract not initialized''), s1)
             | Some usdc \<Rightarrow>
            (case siloContract w of
               None \<Rightarrow> (Inl (Error ''Contract 2 not initialized''), s1)
             | Some silo \<Rightarrow>
            (case getAccount inst of
               None \<Rightarrow> (Inl (Error ''Failed to get account from smart wallet''), s1)
             | Some account \<Rightarrow>
            (case getTokenAmount ch amount USDC_TOKEN s1 of
               (Inl e, s2) \<Rightarrow> (Inl e, s2)
             | (Inr amountDecimals, s2) \<Rightarrow>
                 let approveTransaction = Erc20Approve usdc SILO amountDecimals;
                     (transferFromCalldata, s3) =
                        generateTransferFromCalldata ch USDC_TOKEN SILO amountDecimals s2;
                     (approveCalldata, s4) =
                        generateApproveCalldata ch USDC_TOKEN B_USDC_TOKEN amountDecimals s3;
                     (depositCalldata, s5) =
                        generateDepositCalldata ch B_USDC_TOKEN amountDecimals SILO_COLLATERAL s4;
                     finalCalldata = [transferFromCalldata, approveCalldata, depositCalldata];
                     multicallTransaction = PreparedCall silo ''multicall'' [PArray finalCalldata];
                     combinedTransaction = [approveTransaction, multicallTransaction]
                 in (case sendBatchTransaction ch combinedTransaction account s5 of
                       (Inl e, s6) \<Rightarrow> (Inl e, s6)
                     | (Inr h, s6) \<Rightarrow>
                         (Inr h, console_log (''Deposit completed: '' @ h) s6))))))))"

definition approveAndDepositToSilo ::
  "chain \<Rightarrow> wallet \<Rightarrow> string \<Rightarrow> world \<Rightarrow> string outcome" where
  "approveAndDepositToSilo ch w amount s =
     log_and_rethrow ''Error in Function 3:'' (approveAndDepositToSilo_try ch w amount s)"

definition withdrawFromSilo_try :: "chain \<Rightarrow> wallet \<Rightarrow> world \<Rightarrow> string outcome" where
  "withdrawFromSilo_try ch w s =
     (case smartWalletInstance w of
        None \<Rightarrow> (Inl (Error ''Smart wallet not initialized''), s)
      | Some inst \<Rightarrow>
     (case siloContract w of
        None \<Rightarrow> (Inl (Error ''Contract 2 not initialized''), s)
      | Some silo \<Rightarrow>
     (case getAccount inst of
        None \<Rightarrow> (Inl (Error ''Failed to get account from smart wallet''), s)
      | Some account \<Rightarrow>
     (case balanceOf ch (siloBusdContract w) account s of
        (Inl e, s1) \<Rightarrow> (Inl e, s1)
      | (Inr balanceResult, s1) \<Rightarrow>
          (case siloBusdContract w of
             None \<Rightarrow> (Inl UndefinedContract, s1)
           | Some busd \<Rightarrow>
               let amountDecimals = bigint_toString (int balanceResult);
                   s2 = console_log (''Shares balance:  '' @ amountDecimals) s1;
                   withdrawTransaction =
                     PreparedCall busd ''redeem''
                       [PString amountDecimals, PString account, PString account,
                        PString SILO_COLLATERAL]
               in (case sendTransaction ch withdrawTransaction account s2 of
                     (Inl e, s3) \<Rightarrow> (Inl e, s3)
                   | (Inr h, s3) \<Rightarrow>
                       (Inr h, console_log (''Withdraw from Silo completed: '' @ h) s3)))))))"

definition withdrawFromSilo :: "chain \<Rightarrow> wallet \<Rightarrow> world \<Rightarrow> string outcome" where
  "withdrawFromSilo ch w s =
     log_and_rethrow ''Error in Withdrawing from Silo:'' (withdrawFromSilo_try ch w s)"

section \<open>The rotation loop\<close>

text \<open>
  The loop of \<open>main\<close> in \<^verbatim>\<open>index.ts\<close>. Besides the world, the loop carries the history of
  what it has called so far: one event for each wallet operation it invokes and one for
  each \<open>sleep\<close>, in the order of the calls. The history is not a variable of the program;
  it records the order in which the statements of the loop run.
\<close>

datatype event =
    Called_withdrawFromSilo
  | Called_approveAndSupplyToAave string
  | Called_withdrawFromAave string
  | Called_approveAndDepositToSilo string
  | Slept nat

type_synonym run = "world \<times> event list"

definition ROTATE_DURATION :: nat where
  "ROTATE_DURATION = 15"

definition AMOUNT :: string where
  "AMOUNT = ''1''"

definition invoke :: "event \<Rightarrow> (world \<Rightarrow> 'a outcome) \<Rightarrow> run \<Rightarrow> (error + 'a) \<times> run" where
  "invoke ev operation st =
     (case st of (s, history) \<Rightarrow>
        (case operation s of (r, s') \<Rightarrow> (r, (s', history @ [ev]))))"

definition sleep :: "nat \<Rightarrow> run \<Rightarrow> run" where
  "sleep milliseconds st = (case st of (s, history) \<Rightarrow> (s, history @ [Slept milliseconds]))"

definition say :: "string \<Rightarrow> run \<Rightarrow> run" where
  "say msg st = (case st of (s, history) \<Rightarrow> (console_log msg s, history))"

definition cycle :: "chain \<Rightarrow> wallet \<Rightarrow> nat \<Rightarrow> nat \<Rightarrow> run \<Rightarrow> (error + unit) \<times> run" where
  "cycle ch w cycles i st0 =
     (let st = say ([CHR 0x0A] @ '' Cycle '' @ nat_toString (i + 1) @ '' of ''
                      @ nat_toString cycles) st0
      in case (if 0 < i then invoke Called_withdrawFromSilo (withdrawFromSilo ch w) st
               else (Inr [], st)) of
           (Inl e, st1) \<Rightarrow> (Inl e, st1)
         | (Inr _, st1) \<Rightarrow>
      (case invoke (Called_approveAndSupplyToAave AMOUNT) (approveAndSupplyToAave ch w AMOUNT)
              (say ''Moving funds to Aave...'' st1) of
           (Inl e, st2) \<Rightarrow> (Inl e, st2)
         | (Inr _, st2) \<Rightarrow>
      (case invoke (Called_withdrawFromAave AMOUNT) (withdrawFromAave ch w AMOUNT)
              (say ''Withdrawing from Aave...''
                 (sleep (ROTATE_DURATION * 1000)
                    (say (''Waiting '' @ nat_toString ROTATE_DURATION @ '' seconds...'') st2))) of
           (Inl e, st3) \<Rightarrow> (Inl e, st3)
         | (Inr _, st3) \<Rightarrow>
      (case invoke (Called_approveAndDepositToSilo AMOUNT) (approveAndDepositToSilo ch w AMOUNT)
              (say ''Moving funds to Silo...'' (sleep (2 * 1000) st3)) of
           (Inl e, st4) \<Rightarrow> (Inl e, st4)
         | (Inr _, st4) \<Rightarrow>
             (Inr (),
              if i < cycles - 1
              then sleep (ROTATE_DURATION * 1000)
                     (say (''Waiting '' @ nat_toString ROTATE_DURATION
                             @ '' seconds before next cycle...'') st4)
              else st4)))))"

function rotate :: "chain \<Rightarrow> wallet \<Rightarrow> nat \<Rightarrow> nat \<Rightarrow> run \<Rightarrow> (error + unit) \<times> run" where
  "rotate ch w cycles i st =
     (if i < cycles then
        (case cycle ch w cycles i st of
           (Inl e, st') \<Rightarrow> (Inl e, st')
         | (Inr _, st') \<Rightarrow> rotate ch w cycles (Suc i) st')
      else (Inr (), st))"
  by pat_completeness auto
termination
  by (relation "measure (\<lambda>(ch, w, cycles, i, st). cycles - i)") auto

declare rotate.simps [simp del]

text \<open>
  \<open>main\<close>, for a wallet that has been constructed and connected: ten cycles, and the
  \<open>catch\<close> that logs whatever error ends the run.
\<close>

definition main :: "chain \<Rightarrow> wallet \<Rightarrow> run \<Rightarrow> run" where
  "main ch w st =
     (case rotate ch w 10 0 st of
        (Inl e, (s, history)) \<Rightarrow> (console_error ''Error during fund rotation:'' e s, history)
      | (Inr _, st') \<Rightarrow> say ([CHR 0x0A] @ '' Fund rotation completed successfully!'') st')"

text \<open>
  The order the specification gives for one cycle: unwind the Silo position unless this
  is cycle 0, supply to Aave, hold, withdraw from Aave, deposit to Silo, and hold again
  unless this is the last cycle.
\<close>

definition cycle_schedule :: "nat \<Rightarrow> nat \<Rightarrow> event list" where
  "cycle_schedule cycles i =
     (if 0 < i then [Called_withdrawFromSilo] else [])
     @ [Called_approveAndSupplyToAave ''1'', Slept 15000, Called_withdrawFromAave ''1'',
        Slept 2000, Called_approveAndDepositToSilo ''1'']
     @ (if i < cycles - 1 then [Slept 15000] else [])"

definition rotation_schedule :: "nat \<Rightarrow> event list" where
  "rotation_schedule cycles = concat (map (cycle_schedule cycles) [0..<cycles])"

text \<open>
  The same order as a script, with the console lines of the loop in their places. A
  script is run one step after the other and stops at the first step that throws.
  Performing a call event runs the wallet operation of that name on the world and notes
  the event; performing \<open>Slept\<close> only notes it; printing adds the line to the console.
\<close>

datatype script_step = Perform event | Print string

fun run_step :: "chain \<Rightarrow> wallet \<Rightarrow> script_step \<Rightarrow> run \<Rightarrow> (error + unit) \<times> run" where
  "run_step ch w (Print msg) (s, history) = (Inr (), (console_log msg s, history))"
| "run_step ch w (Perform (Slept ms)) (s, history) = (Inr (), (s, history @ [Slept ms]))"
| "run_step ch w (Perform Called_withdrawFromSilo) (s, history) =
     (case withdrawFromSilo ch w s of
        (r, s') \<Rightarrow> (case r of Inl e \<Rightarrow> Inl e | Inr _ \<Rightarrow> Inr (),
                    (s', history @ [Called_withdrawFromSilo])))"
| "run_step ch w (Perform (Called_approveAndSupplyToAave amount)) (s, history) =
     (case approveAndSupplyToAave ch w amount s of
        (r, s') \<Rightarrow> (case r of Inl e \<Rightarrow> Inl e | Inr _ \<Rightarrow> Inr (),
                    (s', history @ [Called_approveAndSupplyToAave amount])))"
| "run_step ch w (Perform (Called_withdrawFromAave amount)) (s, history) =
     (case withdrawFromAave ch w amount s of
        (r, s') \<Rightarrow> (case r of Inl e \<Rightarrow> Inl e | Inr _ \<Rightarrow> Inr (),
                    (s', history @ [Called_withdrawFromAave amount])))"
| "run_step ch w (Perform (Called_approveAndDepositToSilo amount)) (s, history) =
     (case approveAndDepositToSilo ch w amount s of
        (r, s') \<Rightarrow> (case r of Inl e \<Rightarrow> Inl e | Inr _ \<Rightarrow> Inr (),
                    (s', history @ [Called_approveAndDepositToSilo amount])))"

fun run_script :: "chain \<Rightarrow> wallet \<Rightarrow> script_step list \<Rightarrow> run \<Rightarrow> (error + unit) \<times> run" where
  "run_script ch w [] st = (Inr (), st)"
| "run_script ch w (x # xs) st =
     (case run_step ch w x st of
        (Inl e, st') \<Rightarrow> (Inl e, st')
      | (Inr _, st') \<Rightarrow> run_script ch w xs st')"

definition cycle_script :: "nat \<Rightarrow> nat \<Rightarrow> script_step list" where
  "cycle_script cycles i =
     [Print ([CHR 0x0A] @ '' Cycle '' @ nat_toString (i + 1) @ '' of '' @ nat_toString cycles)]
     @ (if 0 < i then [Perform Called_withdrawFromSilo] else [])
     @ [Print ''Moving funds to Aave...'',
        Perform (Called_approveAndSupplyToAave ''1''),
        Print ''Waiting 15 seconds...'',
        Perform (Slept 15000),
        Print ''Withdrawing from Aave...'',
        Perform (Called_withdrawFromAave ''1''),
        Perform (Slept 2000),
        Print ''Moving funds to Silo...'',
        Perform (Called_approveAndDepositToSilo ''1'')]
     @ (if i < cycles - 1
        then [Print ''Waiting 15 seconds before next cycle...'', Perform (Slept 15000)]
        else [])"

definition rotation_script :: "nat \<Rightarrow> script_step list" where
  "rotation_script cycles = concat (map (cycle_script cycles) [0..<cycles])"

text \<open>
  What reaches the wallet collaborator, by method name: a single transaction is the
  method it calls, a batch the methods of its steps in order. One cycle of the schedule
  submits \<open>redeem\<close> (not in cycle 0), the batch \<open>approve, supply\<close>, \<open>withdraw\<close>, and the batch
  \<open>approve, multicall\<close>.
\<close>

fun step_method :: "step \<Rightarrow> string" where
  "step_method (PreparedCall c method ps) = method"
| "step_method (Erc20Approve c spender amount) = ''approve''"

fun submission_methods :: "submission \<Rightarrow> string list" where
  "submission_methods (Single tx account) = [step_method tx]"
| "submission_methods (Batch txs account) = map step_method txs"

definition cycle_submissions :: "nat \<Rightarrow> string list list" where
  "cycle_submissions i =
     (if 0 < i then [[''redeem'']] else [])
     @ [[''approve'', ''supply''], [''withdraw''], [''approve'', ''multicall'']]"

definition submission_schedule :: "nat \<Rightarrow> string list list" where
  "submission_schedule cycles = concat (map cycle_submissions [0..<cycles])"

text \<open>What one step of a script submits when it goes through.\<close>

fun step_submissions :: "script_step \<Rightarrow> string list list" where
  "step_submissions (Perform Called_withdrawFromSilo) = [[''redeem'']]"
| "step_submissions (Perform (Called_approveAndSupplyToAave amount)) = [[''approve'', ''supply'']]"
| "step_submissions (Perform (Called_withdrawFromAave amount)) = [[''withdraw'']]"
| "step_submissions (Perform (Called_approveAndDepositToSilo amount)) =
     [[''approve'', ''multicall'']]"
| "step_submissions (Perform (Slept ms)) = []"
| "step_submissions (Print msg) = []"

section \<open>A test environment\<close>

text \<open>
  A chain on which every interaction succeeds: the token has \<open>d\<close> decimals, every balance
  is \<open>b\<close>, and submissions return a fixed hash. Its encoder rejects a call with an
  argument that is empty or begins with a minus sign (an \<open>uint256\<close> has no sign), and
  writes any other call out as text.
\<close>

definition test_encode :: "string \<Rightarrow> string list \<Rightarrow> string option" where
  "test_encode method args =
     (if list_all (\<lambda>a. a \<noteq> [] \<and> hd a \<noteq> CHR ''-'') args
      then Some (''0x'' @ method @ concat (map (\<lambda>a. ''/'' @ a) args))
      else None)"

definition test_chain :: "nat \<Rightarrow> nat \<Rightarrow> chain" where
  "test_chain d b =
     \<lparr>decimals_at = (\<lambda>_ _. Some d),
      balanceOf_at = (\<lambda>_ _ _. Some b),
      sendTransaction_at = (\<lambda>_ _ _. Some ''0x01''),
      sendBatchTransaction_at = (\<lambda>_ _ _. Some ''0x02''),
      encodeFunctionData = test_encode\<rparr>"

definition test_wallet :: wallet where
  "test_wallet =
     \<lparr>smartWalletInstance = Some (SmartWallet (Some ''0xA11CE'')),
      usdcContract = Some (Contract USDC_TOKEN),
      aaveContract = Some (Contract AAVE),
      siloContract = Some (Contract SILO),
      siloBusdContract = Some (Contract B_USDC_TOKEN)\<rparr>"

definition world0 :: world where
  "world0 = \<lparr>tick = 0, console = [], sent = []\<rparr>"

section \<open>Facts about the conversions\<close>

lemma digit_char_props: "n < 10 \<Longrightarrow> is_digit (digit_char n) \<and> digit_val (digit_char n) = n"
  by (simp add: is_digit_def digit_val_def digit_char_def)

lemma digits_val_snoc: "digits_val (xs @ [c]) = 10 * digits_val xs + digit_val c"
  by (simp add: digits_val_def)

lemma digits_val_append:
  "digits_val (xs @ ys) = digits_val xs * 10 ^ length ys + digits_val ys"
proof (induction ys rule: rev_induct)
  case Nil
  show ?case by (simp add: digits_val_def)
next
  case (snoc y ys)
  have "digits_val (xs @ ys @ [y]) = 10 * digits_val (xs @ ys) + digit_val y"
    using digits_val_snoc [of "xs @ ys" y] by simp
  also have "\<dots> = 10 * (digits_val xs * 10 ^ length ys + digits_val ys) + digit_val y"
    by (simp add: snoc.IH)
  also have "\<dots> = digits_val xs * 10 ^ length (ys @ [y]) + digits_val (ys @ [y])"
    by (simp add: digits_val_snoc algebra_simps)
  finally show ?case .
qed

lemma digits_val_zeros: "list_all (\<lambda>c. c = CHR ''0'') zs \<Longrightarrow> digits_val zs = 0"
  by (induction zs rule: rev_induct) (simp_all add: digits_val_snoc digits_val_def digit_val_def)

lemma nat_toString_props:
  "list_all is_digit (nat_toString n) \<and> nat_toString n \<noteq> [] \<and> digits_val (nat_toString n) = n"
proof (induction n rule: nat_toString.induct)
  case (1 n)
  show ?case
  proof (cases "n < 10")
    case True
    then show ?thesis
      using digit_char_props [of n]
      by (subst (1 2 3) nat_toString.simps) (simp add: digits_val_def)
  next
    case False
    have m: "n mod 10 < 10" by simp
    from False 1 have ih: "list_all is_digit (nat_toString (n div 10))"
      "digits_val (nat_toString (n div 10)) = n div 10" by simp_all
    show ?thesis
      using False ih digit_char_props [OF m]
      by (subst (1 2 3) nat_toString.simps) (simp add: digits_val_snoc)
  qed
qed

lemma is_digit_not_sign: "is_digit c \<Longrightarrow> c \<noteq> CHR ''-'' \<and> c \<noteq> CHR ''+''"
  by (auto simp: is_digit_def)

lemma BigInt_nat_toString: "BigInt (nat_toString n) = Some (int n)"
proof -
  obtain c r where cr: "nat_toString n = c # r"
    using nat_toString_props [of n] by (cases "nat_toString n") auto
  have "is_digit c" using nat_toString_props [of n] cr by simp
  then have "c \<noteq> CHR ''-''" "c \<noteq> CHR ''+''" using is_digit_not_sign by auto
  then show ?thesis
    using nat_toString_props [of n] cr by (simp add: BigInt_def)
qed

lemma BigInt_toString: "BigInt (bigint_toString i) = Some i"
proof (cases "i < 0")
  case True
  then show ?thesis
    using nat_toString_props [of "nat (- i)"] by (simp add: bigint_toString_def BigInt_def)
next
  case False
  then show ?thesis by (simp add: bigint_toString_def BigInt_nat_toString)
qed

lemma getBigInt_nat: "getBigInt (bigint_toString (int n)) = Inr (int n)"
proof -
  obtain c r where cr: "nat_toString n = c # r"
    using nat_toString_props [of n] by (cases "nat_toString n") auto
  have "is_digit c" using nat_toString_props [of n] cr by simp
  then have "c \<noteq> CHR ''-''" using is_digit_not_sign by auto
  then show ?thesis
    using BigInt_nat_toString [of n] cr by (simp add: getBigInt_def bigint_toString_def)
qed

lemma formatUnits_balance:
  "int b < fixed_limit \<Longrightarrow> formatUnits (bigint_toString (int b)) 6 = Inr (fixed_toString (int b) 6)"
proof -
  assume a: "int b < fixed_limit"
  have "- fixed_limit \<le> (0::int)" by (simp add: fixed_limit_def)
  also have "\<dots> \<le> int b" by simp
  finally have "- fixed_limit \<le> int b" .
  with a show ?thesis by (simp add: formatUnits_def getBigInt_nat)
qed

lemma parseUnits_range: "parseUnits a d = Inr v \<Longrightarrow> - fixed_limit \<le> v \<and> v < fixed_limit"
  by (auto simp: parseUnits_def Let_def split: option.splits prod.splits if_splits)

lemma parseUnits_digits:
  assumes m: "match_fixed a = Some (neg, wd, fd)"
    and P: "P \<le> 80"
    and z: "list_all (\<lambda>c. c = CHR ''0'') (drop P fd)"
  shows "(of_int (if neg then - int (digits_val ((if wd = [] then ''0'' else wd)
            @ take P (fd @ replicate (P - length fd) (CHR ''0''))))
          else int (digits_val ((if wd = [] then ''0'' else wd)
            @ take P (fd @ replicate (P - length fd) (CHR ''0''))))) :: rat)
         = amount_value (neg, wd, fd) * 10 ^ P"
proof -
  let ?rep = "replicate (P - length fd) (CHR ''0'')"
  let ?wd = "(if wd = [] then ''0'' else wd)"
  have w: "digits_val ?wd = digits_val wd"
    by (simp add: digits_val_def digit_val_def)
  have tk: "take P (fd @ ?rep) = take P fd @ ?rep" by simp
  have len: "length (take P fd @ ?rep) = P" by simp
  have rep0: "digits_val ?rep = 0" by (rule digits_val_zeros) (simp add: list_all_iff)
  have n: "digits_val (?wd @ take P (fd @ ?rep))
           = digits_val wd * 10 ^ P + digits_val (take P fd) * 10 ^ (P - length fd)"
    using digits_val_append [of ?wd "take P fd @ ?rep"]
      digits_val_append [of "take P fd" ?rep] w rep0 len by (simp only: tk) simp
  have F: "digits_val fd = digits_val (take P fd) * 10 ^ (length fd - P)"
    using digits_val_append [of "take P fd" "drop P fd"] digits_val_zeros [OF z] by simp
  have frac: "(of_nat (digits_val fd) / 10 ^ length fd * 10 ^ P :: rat)
              = of_nat (digits_val (take P fd) * 10 ^ (P - length fd))"
  proof (cases "length fd \<le> P")
    case True
    then have "take P fd = fd" by simp
    moreover have "(10::rat) ^ P = 10 ^ (P - length fd) * 10 ^ length fd"
      using True by (simp add: power_add [symmetric])
    ultimately show ?thesis by simp
  next
    case False
    then have "(10::rat) ^ length fd = 10 ^ (length fd - P) * 10 ^ P"
      by (simp add: power_add [symmetric])
    then show ?thesis using False by (simp add: F)
  qed
  have "(of_nat (digits_val (?wd @ take P (fd @ ?rep))) :: rat)
        = (of_nat (digits_val wd) + of_nat (digits_val fd) / 10 ^ length fd) * 10 ^ P"
    by (simp only: n distrib_right frac) simp
  then show ?thesis
    by (cases neg) (simp_all add: amount_value_def algebra_simps)
qed

lemma parseUnits_exact:
  assumes m: "match_fixed a = Some (neg, wd, fd)"
    and P: "P \<le> 80"
    and z: "list_all (\<lambda>c. c = CHR ''0'') (drop P fd)"
    and lo: "- of_int fixed_limit \<le> amount_value (neg, wd, fd) * 10 ^ P"
    and hi: "amount_value (neg, wd, fd) * 10 ^ P < of_int fixed_limit"
  shows "\<exists>v. parseUnits a P = Inr v \<and> of_int v = amount_value (neg, wd, fd) * 10 ^ P"
proof -
  let ?n = "int (digits_val ((if wd = [] then ''0'' else wd)
            @ take P (fd @ replicate (P - length fd) (CHR ''0''))))"
  let ?v = "if neg then - ?n else ?n"
  have v: "(of_int ?v :: rat) = amount_value (neg, wd, fd) * 10 ^ P"
    using parseUnits_digits [OF m P z] .
  have "(of_int (- fixed_limit) :: rat) \<le> of_int ?v" using lo v by simp
  then have lo': "- fixed_limit \<le> ?v" by (simp only: of_int_le_iff)
  have "(of_int ?v :: rat) < of_int fixed_limit" using hi v by simp
  then have hi': "?v < fixed_limit" by (simp only: of_int_less_iff)
  have zs: "list_all (\<lambda>c. c = CHR ''0'') (drop P (fd @ replicate (P - length fd) (CHR ''0'')))"
    using z by simp
  have "parseUnits a P = Inr ?v"
    using m P zs lo' hi' by (simp add: parseUnits_def Let_def del: drop_append take_append)
  with v show ?thesis by blast
qed

subsection \<open>Evaluating the conversions on literals\<close>

lemma nat_toString_small: "n < 10 \<Longrightarrow> nat_toString n = [digit_char n]"
  by (subst nat_toString.simps) simp

lemma nat_toString_big:
  "\<not> n < 10 \<Longrightarrow> nat_toString n = nat_toString (n div 10) @ [digit_char (n mod 10)]"
  by (subst nat_toString.simps) simp

lemma digit_char_table:
  "digit_char 0 = CHR ''0''" "digit_char (Suc 0) = CHR ''1''" "digit_char 2 = CHR ''2''"
  "digit_char 3 = CHR ''3''" "digit_char 4 = CHR ''4''" "digit_char 5 = CHR ''5''"
  "digit_char 6 = CHR ''6''" "digit_char 7 = CHR ''7''" "digit_char 8 = CHR ''8''"
  "digit_char 9 = CHR ''9''"
  by (simp_all add: digit_char_def char_of_def bit_0)

lemma replicate_num: "replicate (numeral k) x = x # replicate (pred_numeral k) x"
  by (simp add: numeral_eq_Suc)

lemmas num_eval = fixed_limit_def parseUnits_def match_fixed_def is_digit_def digits_val_def digit_val_def
  bigint_toString_def nat_toString_small nat_toString_big digit_char_table replicate_num
  formatUnits_def getBigInt_def BigInt_def fixed_toString_def trim_whole_def trim_frac_def

section \<open>The balance guard\<close>

lemma getTokenAmount_result:
  assumes "getTokenAmount ch a t s = (Inr r, s1)"
  shows "\<exists>v. r = bigint_toString v \<and> - fixed_limit \<le> v \<and> v < fixed_limit"
    and "tick s1 = Suc (tick s)" and "sent s1 = sent s"
proof -
  have fb: "\<And>e s0. getTokenAmount_catch a e s0 = (Inr r, s1) \<Longrightarrow>
      (\<exists>v. r = bigint_toString v \<and> - fixed_limit \<le> v \<and> v < fixed_limit)
      \<and> tick s1 = tick s0 \<and> sent s1 = sent s0"
    by (auto simp: getTokenAmount_catch_def Let_def console_log_def console_error_def
        split: sum.splits dest: parseUnits_range)
  have "(\<exists>v. r = bigint_toString v \<and> - fixed_limit \<le> v \<and> v < fixed_limit)
      \<and> tick s1 = Suc (tick s) \<and> sent s1 = sent s"
    using assms
    by (auto simp: getTokenAmount_def decimals_def split: option.splits sum.splits
        dest!: fb dest: parseUnits_range)
  then show "\<exists>v. r = bigint_toString v \<and> - fixed_limit \<le> v \<and> v < fixed_limit"
    and "tick s1 = Suc (tick s)" and "sent s1 = sent s" by blast+
qed

lemma getTokenAmount_sent: "sent (snd (getTokenAmount ch a t s)) = sent s"
  by (simp add: getTokenAmount_def getTokenAmount_catch_def decimals_def Let_def
      console_log_def console_error_def split: option.splits sum.splits)

lemma hasEnoughUSDC_try_compare:
  assumes w: "smartWalletInstance w = Some inst" "getAccount inst = Some account"
      "usdcContract w = Some usdc"
    and req: "getTokenAmount ch amount USDC_TOKEN s = (Inr (bigint_toString v), s1)"
    and bal: "balanceOf_at ch (tick s1) (contract_address usdc) account = Some balance"
  shows "hasEnoughUSDC_try ch w amount s =
           (if v \<le> int balance then (Inr True, s1\<lparr>tick := Suc (tick s1)\<rparr>)
            else (Inr False,
                  console_log (insufficient_message amount (fixed_toString (int balance) 6))
                    (s1\<lparr>tick := Suc (tick s1)\<rparr>)))"
proof -
  have v: "v < fixed_limit"
    using getTokenAmount_result(1) [OF req] BigInt_toString
    by (metis option.inject)
  have fu: "\<not> v \<le> int balance \<Longrightarrow>
      formatUnits (bigint_toString (int balance)) 6 = Inr (fixed_toString (int balance) 6)"
    using v by (intro formatUnits_balance) linarith
  obtain a where a: "usdc = Contract a" by (cases usdc)
  show ?thesis
    using w req bal fu a
    by (simp add: hasEnoughUSDC_try_def balanceOf_def BigInt_toString)
qed

lemma log_and_rethrow_sent: "sent (snd (log_and_rethrow l r)) = sent (snd r)"
  by (auto simp: log_and_rethrow_def console_error_def split: prod.splits sum.splits)

lemma log_and_rethrow_fst: "fst (log_and_rethrow l r) = fst r"
  by (auto simp: log_and_rethrow_def split: prod.splits sum.splits)

lemma log_and_rethrow_Inr: "log_and_rethrow l r = (Inr v, s') \<longleftrightarrow> r = (Inr v, s')"
  by (auto simp: log_and_rethrow_def split: prod.splits sum.splits)

lemma hasEnoughUSDC_sent: "sent (snd (hasEnoughUSDC ch w amount s)) = sent s"
proof -
  have "sent (snd (hasEnoughUSDC_try ch w amount s)) = sent s"
    using getTokenAmount_sent [of ch amount USDC_TOKEN s]
    by (auto simp: hasEnoughUSDC_try_def balanceOf_def console_log_def
        split: option.splits sum.splits prod.splits contract.splits)
  then show ?thesis
    by (simp add: hasEnoughUSDC_def log_and_rethrow_sent)
qed

lemma hasEnoughUSDC_returns:
  assumes "hasEnoughUSDC ch w amount s = (Inr ok, s')"
  shows "\<exists>inst account usdc v s1 balance.
           smartWalletInstance w = Some inst \<and> getAccount inst = Some account
           \<and> usdcContract w = Some usdc
           \<and> getTokenAmount ch amount USDC_TOKEN s = (Inr (bigint_toString v), s1)
           \<and> balanceOf_at ch (tick s1) (contract_address usdc) account = Some balance"
proof -
  from assms have t: "hasEnoughUSDC_try ch w amount s = (Inr ok, s')"
    by (simp add: hasEnoughUSDC_def log_and_rethrow_Inr)
  then obtain inst account usdc r s1 balance where
    f: "smartWalletInstance w = Some inst" "getAccount inst = Some account"
      "usdcContract w = Some usdc"
      "getTokenAmount ch amount USDC_TOKEN s = (Inr r, s1)"
      "balanceOf_at ch (tick s1) (contract_address usdc) account = Some balance"
    by (auto simp: hasEnoughUSDC_try_def balanceOf_def
        split: option.splits sum.splits prod.splits contract.splits)
  from getTokenAmount_result(1) [OF f(4)] obtain v where "r = bigint_toString v" by blast
  with f show ?thesis by blast
qed


text \<open>
  C5. The balance guard returns the exact integer comparison of the balance it read with
  the converted amount: \<open>true\<close> when the balance is at least the required amount, \<open>false\<close>
  when it is less. Both sides are unbounded integers; no floating point is involved.
\<close>

theorem hasEnoughUSDC_exact_comparison:
  assumes "smartWalletInstance w = Some inst" and "getAccount inst = Some account"
    and "usdcContract w = Some usdc"
    and "getTokenAmount ch amount USDC_TOKEN s = (Inr requiredAmount, s1)"
    and "balanceOf_at ch (tick s1) (contract_address usdc) account = Some balance"
  shows "\<exists>required. BigInt requiredAmount = Some required
           \<and> fst (hasEnoughUSDC ch w amount s) = Inr (required \<le> int balance)"
proof -
  from getTokenAmount_result(1) [OF assms(4)] obtain v where
    v: "requiredAmount = bigint_toString v" by blast
  have "fst (hasEnoughUSDC_try ch w amount s) = Inr (v \<le> int balance)"
    using hasEnoughUSDC_try_compare [OF assms(1-3) assms(4) [unfolded v] assms(5)] by simp
  then have "fst (hasEnoughUSDC ch w amount s) = Inr (v \<le> int balance)"
    by (simp add: hasEnoughUSDC_def log_and_rethrow_fst)
  then show ?thesis using v BigInt_toString by blast
qed

text \<open>
  C7. Both capital-committing operations call the balance guard first. When the guard
  returns \<open>false\<close>, the operation throws its insufficient-funds error, the only thing it
  does after the guard is to log that error, and nothing is submitted.
\<close>

theorem insufficient_funds_no_submission:
  assumes "hasEnoughUSDC ch w amount s = (Inr False, s1)"
  shows "approveAndSupplyToAave ch w amount s =
           (Inl (Error ''Insufficient USDC balance for Aave supply''),
            console_error ''Error in depositing to Aave:''
              (Error ''Insufficient USDC balance for Aave supply'') s1)
         \<and> approveAndDepositToSilo ch w amount s =
           (Inl (Error ''Insufficient USDC balance for Silo deposit''),
            console_error ''Error in Function 3:''
              (Error ''Insufficient USDC balance for Silo deposit'') s1)
         \<and> sent (snd (approveAndSupplyToAave ch w amount s)) = sent s
         \<and> sent (snd (approveAndDepositToSilo ch w amount s)) = sent s"
proof -
  have s1: "sent s1 = sent s"
    using hasEnoughUSDC_sent [of ch w amount s] assms by simp
  show ?thesis
    using assms s1
    by (simp add: approveAndSupplyToAave_def approveAndSupplyToAave_try_def
        approveAndDepositToSilo_def approveAndDepositToSilo_try_def
        log_and_rethrow_def console_error_def)
qed

section \<open>The test environment, evaluated\<close>

lemmas env_defs = test_chain_def test_wallet_def world0_def test_encode_def
  USDC_TOKEN_def SILO_def AAVE_def B_USDC_TOKEN_def SILO_COLLATERAL_def

lemma console_sent:
  "sent (console_log m s) = sent s" "sent (console_error l e s) = sent s"
  by (simp_all add: console_log_def console_error_def)

lemma parseUnits_one: "parseUnits ''1'' 6 = Inr 1000000"
  by (simp add: num_eval)

lemma toString_million: "bigint_toString 1000000 = ''1000000''"
  by (simp add: num_eval)

lemma BigInt_million: "BigInt ''1000000'' = Some 1000000"
  using BigInt_toString [of 1000000] by (simp only: toString_million)

lemma test_getTokenAmount_one:
  "getTokenAmount (test_chain 6 b) ''1'' USDC_TOKEN s = (Inr ''1000000'', s\<lparr>tick := Suc (tick s)\<rparr>)"
  by (simp add: getTokenAmount_def decimals_def test_chain_def parseUnits_one toString_million)

lemma test_wallet_fields:
  "smartWalletInstance test_wallet = Some (SmartWallet (Some ''0xA11CE''))"
  "getAccount (SmartWallet (Some ''0xA11CE'')) = Some ''0xA11CE''"
  "usdcContract test_wallet = Some (Contract USDC_TOKEN)"
  "aaveContract test_wallet = Some (Contract AAVE)"
  "siloContract test_wallet = Some (Contract SILO)"
  "siloBusdContract test_wallet = Some (Contract B_USDC_TOKEN)"
  by (simp_all add: test_wallet_def)

lemma test_balance: "balanceOf_at (test_chain d b) t a h = Some b"
  by (simp add: test_chain_def)

text \<open>
  The guard on the specification's example: at 6 decimals the amount \<open>1\<close> needs \<open>1000000\<close>
  base units; a balance of \<open>999999\<close> gives \<open>false\<close>.
\<close>

theorem hasEnoughUSDC_exact_comparison_witness:
  "getTokenAmount (test_chain 6 999999) ''1'' USDC_TOKEN world0
     = (Inr ''1000000'', world0\<lparr>tick := Suc (tick world0)\<rparr>)
   \<and> balanceOf_at (test_chain 6 999999) (tick (world0\<lparr>tick := Suc (tick world0)\<rparr>))
       (contract_address (Contract USDC_TOKEN)) ''0xA11CE'' = Some 999999
   \<and> fst (hasEnoughUSDC (test_chain 6 999999) test_wallet ''1'' world0) = Inr False"
proof -
  have g: "getTokenAmount (test_chain 6 999999) ''1'' USDC_TOKEN world0
             = (Inr ''1000000'', world0\<lparr>tick := Suc (tick world0)\<rparr>)"
    by (rule test_getTokenAmount_one)
  have b: "balanceOf_at (test_chain 6 999999) (tick (world0\<lparr>tick := Suc (tick world0)\<rparr>))
             (contract_address (Contract USDC_TOKEN)) ''0xA11CE'' = Some 999999"
    by (rule test_balance)
  from hasEnoughUSDC_exact_comparison [OF test_wallet_fields(1-3) g b]
  obtain required where "BigInt ''1000000'' = Some required"
    and r: "fst (hasEnoughUSDC (test_chain 6 999999) test_wallet ''1'' world0)
              = Inr (required \<le> int 999999)" by blast
  then have "required = 1000000" by (simp add: BigInt_million)
  with r g b show ?thesis by simp
qed

lemma test_guard_passes:
  "1000000 \<le> int b \<Longrightarrow>
   hasEnoughUSDC (test_chain 6 b) test_wallet ''1'' s = (Inr True, s\<lparr>tick := Suc (Suc (tick s))\<rparr>)"
  using hasEnoughUSDC_try_compare [OF test_wallet_fields(1-3), of "test_chain 6 b" "''1''" s
      1000000 "s\<lparr>tick := Suc (tick s)\<rparr>" b]
  by (simp add: hasEnoughUSDC_def log_and_rethrow_def test_getTokenAmount_one toString_million
      test_balance)

lemma test_guard_fails:
  "int b < 1000000 \<Longrightarrow>
   hasEnoughUSDC (test_chain 6 b) test_wallet ''1'' s =
     (Inr False, console_log (insufficient_message ''1'' (fixed_toString (int b) 6))
                   (s\<lparr>tick := Suc (Suc (tick s))\<rparr>))"
  using hasEnoughUSDC_try_compare [OF test_wallet_fields(1-3), of "test_chain 6 b" "''1''" s
      1000000 "s\<lparr>tick := Suc (tick s)\<rparr>" b]
  by (simp add: hasEnoughUSDC_def log_and_rethrow_def test_getTokenAmount_one toString_million
      test_balance)

theorem insufficient_funds_no_submission_witness:
  "hasEnoughUSDC (test_chain 6 500000) test_wallet ''1'' world0 =
     (Inr False, console_log (insufficient_message ''1'' (fixed_toString (int 500000) 6))
                   (world0\<lparr>tick := Suc (Suc (tick world0))\<rparr>))
   \<and> fst (approveAndSupplyToAave (test_chain 6 500000) test_wallet ''1'' world0)
       = Inl (Error ''Insufficient USDC balance for Aave supply'')
   \<and> fst (approveAndDepositToSilo (test_chain 6 500000) test_wallet ''1'' world0)
       = Inl (Error ''Insufficient USDC balance for Silo deposit'')
   \<and> sent (snd (approveAndSupplyToAave (test_chain 6 500000) test_wallet ''1'' world0)) = []
   \<and> sent (snd (approveAndDepositToSilo (test_chain 6 500000) test_wallet ''1'' world0)) = []"
proof -
  have g: "hasEnoughUSDC (test_chain 6 500000) test_wallet ''1'' world0 =
     (Inr False, console_log (insufficient_message ''1'' (fixed_toString (int 500000) 6))
                   (world0\<lparr>tick := Suc (Suc (tick world0))\<rparr>))"
    by (rule test_guard_fails) simp
  have w: "sent world0 = []" by (simp add: world0_def)
  show ?thesis
    using insufficient_funds_no_submission [OF g] g w by (simp add: console_sent)
qed

text \<open>
  C6, as the code has it. When the guard returns \<open>false\<close> its last console line names the
  amount that was asked for, as the caller wrote it, and the available balance in human
  units at six decimals. The difference between the two is not computed or printed.
\<close>

theorem insufficient_balance_report:
  assumes "hasEnoughUSDC ch w amount s = (Inr False, s')"
  shows "\<exists>inst account usdc balance.
           smartWalletInstance w = Some inst \<and> getAccount inst = Some account
           \<and> usdcContract w = Some usdc
           \<and> balanceOf_at ch (Suc (tick s)) (contract_address usdc) account = Some balance
           \<and> console s' = console (snd (getTokenAmount ch amount USDC_TOKEN s))
                @ [Log (''Insufficient USDC balance. Required: '' @ amount
                        @ '' USDC, Available: '' @ fixed_toString (int balance) 6 @ '' USDC'')]"
proof -
  from hasEnoughUSDC_returns [OF assms] obtain inst account usdc v s1 balance where
    f: "smartWalletInstance w = Some inst" "getAccount inst = Some account"
      "usdcContract w = Some usdc"
      "getTokenAmount ch amount USDC_TOKEN s = (Inr (bigint_toString v), s1)"
      "balanceOf_at ch (tick s1) (contract_address usdc) account = Some balance"
    by blast
  have t: "tick s1 = Suc (tick s)" using getTokenAmount_result(2) [OF f(4)] .
  have "hasEnoughUSDC_try ch w amount s = (Inr False, s')"
    using assms by (simp add: hasEnoughUSDC_def log_and_rethrow_Inr)
  then have "s' = console_log (insufficient_message amount (fixed_toString (int balance) 6))
                    (s1\<lparr>tick := Suc (tick s1)\<rparr>)"
    using hasEnoughUSDC_try_compare [OF f] by (simp split: if_splits)
  then have "console s' = console s1
      @ [Log (''Insufficient USDC balance. Required: '' @ amount
              @ '' USDC, Available: '' @ fixed_toString (int balance) 6 @ '' USDC'')]"
    by (simp add: console_log_def insufficient_message_def)
  with f t show ?thesis by simp
qed

lemma fixed_toString_half: "fixed_toString 500000 6 = ''0.5''"
  by (simp add: num_eval)

lemma fixed_toString_quarter: "fixed_toString 250000 6 = ''0.25''"
  by (simp add: num_eval)

lemma fixed_toString_three_quarters: "fixed_toString 750000 6 = ''0.75''"
  by (simp add: num_eval)

theorem insufficient_balance_report_witness:
  "hasEnoughUSDC (test_chain 6 500000) test_wallet ''1'' world0 =
     (Inr False, console_log (insufficient_message ''1'' (fixed_toString (int 500000) 6))
                   (world0\<lparr>tick := Suc (Suc (tick world0))\<rparr>))
   \<and> console (snd (hasEnoughUSDC (test_chain 6 500000) test_wallet ''1'' world0))
       = [Log ''Insufficient USDC balance. Required: 1 USDC, Available: 0.5 USDC'']"
proof -
  have g: "hasEnoughUSDC (test_chain 6 500000) test_wallet ''1'' world0 =
     (Inr False, console_log (insufficient_message ''1'' (fixed_toString (int 500000) 6))
                   (world0\<lparr>tick := Suc (Suc (tick world0))\<rparr>))"
    by (rule test_guard_fails) simp
  from insufficient_balance_report [OF g] obtain balance where
    b: "balanceOf_at (test_chain 6 500000) (Suc (tick world0))
          (contract_address (Contract USDC_TOKEN)) ''0xA11CE'' = Some balance"
    and c: "console (snd (hasEnoughUSDC (test_chain 6 500000) test_wallet ''1'' world0))
       = console (snd (getTokenAmount (test_chain 6 500000) ''1'' USDC_TOKEN world0))
         @ [Log (''Insufficient USDC balance. Required: '' @ ''1''
                        @ '' USDC, Available: '' @ fixed_toString (int balance) 6 @ '' USDC'')]"
    by (auto simp: test_wallet_fields g)
  from b have "balance = 500000" by (simp add: test_balance)
  with c g show ?thesis
    by (simp add: test_getTokenAmount_one fixed_toString_half world0_def)
qed

text \<open>
  The shortfall itself is not reported: with \<open>1000000\<close> base units required and a balance
  of \<open>250000\<close> the shortfall is \<open>0.75\<close>, and the only line the guard prints reports the
  available \<open>0.25\<close>; \<open>0.75\<close> appears nowhere in it.
\<close>

theorem shortfall_not_reported_counterexample:
  "fst (hasEnoughUSDC (test_chain 6 250000) test_wallet ''1'' world0) = Inr False
   \<and> fixed_toString (1000000 - 250000) 6 = ''0.75''
   \<and> console (snd (hasEnoughUSDC (test_chain 6 250000) test_wallet ''1'' world0))
       = [Log ''Insufficient USDC balance. Required: 1 USDC, Available: 0.25 USDC'']
   \<and> \<not> sublist ''0.75'' ''Insufficient USDC balance. Required: 1 USDC, Available: 0.25 USDC''"
proof -
  have g: "hasEnoughUSDC (test_chain 6 250000) test_wallet ''1'' world0 =
     (Inr False, console_log (insufficient_message ''1'' (fixed_toString (int 250000) 6))
                   (world0\<lparr>tick := Suc (Suc (tick world0))\<rparr>))"
    by (rule test_guard_fails) simp
  have n: "\<not> sublist ''0.75'' ''Insufficient USDC balance. Required: 1 USDC, Available: 0.25 USDC''"
    by (simp add: sublist_Cons_right prefix_Cons)
  show ?thesis
    using g n
    by (simp add: fixed_toString_quarter fixed_toString_three_quarters console_log_def
        insufficient_message_def world0_def)
qed

section \<open>Unit conversion\<close>

text \<open>
  C3, within the bounds of the conversion. When the read of the token's decimals succeeds
  with \<open>P\<close>, \<open>P\<close> is at most 80, and the amount is a decimal string that is valid at that
  precision (it matches the decimal syntax, has no non-zero fractional digit beyond the
  \<open>P\<close>-th, and its scaled value fits the signed 512-bit format of the library),
  \<open>getTokenAmount\<close> returns the decimal text of the integer \<open>amount \<times> 10^P\<close>, exactly, and
  does nothing else than the one read.
\<close>

theorem getTokenAmount_exact:
  assumes "decimals_at ch (tick s) token = Some P"
    and "match_fixed amount = Some (neg, wd, fd)"
    and "P \<le> 80"
    and "list_all (\<lambda>c. c = CHR ''0'') (drop P fd)"
    and "- of_int fixed_limit \<le> amount_value (neg, wd, fd) * 10 ^ P"
    and "amount_value (neg, wd, fd) * 10 ^ P < of_int fixed_limit"
  shows "\<exists>v. getTokenAmount ch amount token s
               = (Inr (bigint_toString v), s\<lparr>tick := Suc (tick s)\<rparr>)
             \<and> of_int v = amount_value (neg, wd, fd) * 10 ^ P"
proof -
  from parseUnits_exact [OF assms(2-6)] obtain v where
    v: "parseUnits amount P = Inr v" "of_int v = amount_value (neg, wd, fd) * 10 ^ P" by blast
  have "getTokenAmount ch amount token s = (Inr (bigint_toString v), s\<lparr>tick := Suc (tick s)\<rparr>)"
    using assms(1) v(1) by (simp add: getTokenAmount_def decimals_def)
  with v(2) show ?thesis by blast
qed

lemma match_fixed_example:
  "match_fixed ''1.500000000000000001'' = Some (False, ''1'', ''500000000000000001'')"
  by (simp add: match_fixed_def is_digit_def)

lemma amount_value_example:
  "amount_value (False, ''1'', ''500000000000000001'') * 10 ^ 18 = 1500000000000000001"
  by (simp add: amount_value_def digits_val_def digit_val_def)

lemma toString_example: "bigint_toString 1500000000000000001 = ''1500000000000000001''"
  by (simp add: num_eval)

theorem getTokenAmount_exact_witness:
  "decimals_at (test_chain 18 0) (tick world0) USDC_TOKEN = Some 18
   \<and> match_fixed ''1.500000000000000001'' = Some (False, ''1'', ''500000000000000001'')
   \<and> list_all (\<lambda>c. c = CHR ''0'') (drop 18 ''500000000000000001'')
   \<and> amount_value (False, ''1'', ''500000000000000001'') * 10 ^ 18 < of_int fixed_limit
   \<and> fst (getTokenAmount (test_chain 18 0) ''1.500000000000000001'' USDC_TOKEN world0)
       = Inr ''1500000000000000001''"
proof -
  have d: "decimals_at (test_chain 18 0) (tick world0) USDC_TOKEN = Some 18"
    by (simp add: test_chain_def)
  have P: "(18::nat) \<le> 80" by simp
  have z: "list_all (\<lambda>c. c = CHR ''0'') (drop 18 ''500000000000000001'')" by simp
  have lo: "- of_int fixed_limit \<le> amount_value (False, ''1'', ''500000000000000001'') * 10 ^ 18"
    by (simp only: amount_value_example) (simp add: fixed_limit_def)
  have hi: "amount_value (False, ''1'', ''500000000000000001'') * 10 ^ 18 < of_int fixed_limit"
    by (simp only: amount_value_example) (simp add: fixed_limit_def)
  from getTokenAmount_exact [OF d match_fixed_example P z lo hi] obtain v where
    g: "getTokenAmount (test_chain 18 0) ''1.500000000000000001'' USDC_TOKEN world0
          = (Inr (bigint_toString v), world0\<lparr>tick := Suc (tick world0)\<rparr>)"
    and v: "(of_int v :: rat) = amount_value (False, ''1'', ''500000000000000001'') * 10 ^ 18"
    by blast
  from v have "(of_int v :: rat) = of_int 1500000000000000001"
    by (simp only: amount_value_example of_int_numeral)
  then have "v = 1500000000000000001" by (simp only: of_int_eq_iff)
  with g d match_fixed_example z hi show ?thesis by (simp add: toString_example)
qed

lemma one_zeros_digits: "digits_val (CHR ''1'' # replicate n (CHR ''0'')) = 10 ^ n"
proof -
  have z: "digits_val (replicate n (CHR ''0'')) = 0"
    by (rule digits_val_zeros) (simp add: list_all_iff)
  have "digits_val ([CHR ''1''] @ replicate n (CHR ''0''))
          = digits_val [CHR ''1''] * 10 ^ length (replicate n (CHR ''0''))
            + digits_val (replicate n (CHR ''0''))"
    by (rule digits_val_append)
  moreover have "digits_val [CHR ''1''] = 1" by (simp add: digits_val_def digit_val_def)
  ultimately show ?thesis by (simp add: z)
qed

lemma one_zeros_match:
  "match_fixed (CHR ''1'' # replicate n (CHR ''0''))
     = Some (False, CHR ''1'' # replicate n (CHR ''0''), [])"
  by (simp add: match_fixed_def is_digit_def)

lemma toString_power_of_ten: "nat_toString (10 ^ n) = CHR ''1'' # replicate n (CHR ''0'')"
proof (induction n)
  case 0
  show ?case by (simp add: nat_toString_small digit_char_table)
next
  case (Suc n)
  have big: "\<not> (10::nat) ^ Suc n < 10" by simp
  have "nat_toString (10 ^ Suc n) = nat_toString (10 ^ n) @ [digit_char 0]"
    using nat_toString_big [OF big] by simp
  then show ?case by (simp add: Suc.IH digit_char_table replicate_append_same)
qed

lemma one_zeros_parseUnits:
  assumes "P \<le> 80"
  shows "parseUnits (CHR ''1'' # replicate n (CHR ''0'')) P
           = (if (10::int) ^ (n + P) < fixed_limit then Inr (10 ^ (n + P)) else Inl Overflow)"
proof -
  have d: "digits_val ((CHR ''1'' # replicate n (CHR ''0'')) @ replicate P (CHR ''0''))
             = 10 ^ (n + P)"
    using one_zeros_digits [of "n + P"] by (simp add: replicate_add)
  have lo: "- fixed_limit \<le> (10::int) ^ (n + P)"
  proof -
    have "- fixed_limit \<le> (0::int)" by (simp add: fixed_limit_def)
    also have "\<dots> \<le> 10 ^ (n + P)" by simp
    finally show ?thesis .
  qed
  show ?thesis
    using assms d lo by (simp add: parseUnits_def one_zeros_match Let_def)
qed

lemma getTokenAmount_falls_back:
  assumes "decimals_at ch (tick s) token = Some P"
    and "parseUnits amount P = Inl e" and "parseUnits amount 6 = Inr v"
  shows "fst (getTokenAmount ch amount token s) = Inr (bigint_toString v)"
  using assms by (simp add: getTokenAmount_def getTokenAmount_catch_def decimals_def Let_def)

lemma test_decimals: "decimals_at (test_chain d b) t a = Some d"
  by (simp add: test_chain_def)

text \<open>
  Outside those bounds the exact value is not returned. With 81 decimals the library
  rejects the format, with 18 decimals the amount \<open>10^140\<close> does not fit it, and with 2
  decimals the amount \<open>1.234\<close> has a digit too many: each time the conversion at the
  token's precision throws, the \<open>catch\<close> block converts at 6 decimals, and the caller gets
  \<open>amount \<times> 10^6\<close>.
\<close>

theorem getTokenAmount_outside_format_counterexample:
  "match_fixed ''1'' = Some (False, ''1'', [])
   \<and> fst (getTokenAmount (test_chain 81 0) ''1'' USDC_TOKEN world0) = Inr ''1000000''
   \<and> BigInt ''1000000'' = Some 1000000
   \<and> amount_value (False, ''1'', []) * 10 ^ 81 = 10 ^ 81
   \<and> (10::rat) ^ 81 \<noteq> of_int 1000000
   \<and> match_fixed (CHR ''1'' # replicate 140 (CHR ''0''))
       = Some (False, CHR ''1'' # replicate 140 (CHR ''0''), [])
   \<and> fst (getTokenAmount (test_chain 18 0) (CHR ''1'' # replicate 140 (CHR ''0''))
            USDC_TOKEN world0)
       = Inr (bigint_toString (10 ^ 146))
   \<and> bigint_toString (10 ^ 146) = CHR ''1'' # replicate 146 (CHR ''0'')
   \<and> amount_value (False, CHR ''1'' # replicate 140 (CHR ''0''), []) * 10 ^ 18 = 10 ^ 158
   \<and> (10::rat) ^ 158 \<noteq> of_int (10 ^ 146)
   \<and> match_fixed ''1.234'' = Some (False, ''1'', ''234'')
   \<and> fst (getTokenAmount (test_chain 2 0) ''1.234'' USDC_TOKEN world0) = Inr ''1234000''
   \<and> BigInt ''1234000'' = Some 1234000
   \<and> amount_value (False, ''1'', ''234'') * 10 ^ 2 = 617 / 5
   \<and> (617 / 5 :: rat) \<noteq> of_int 1234000"
proof -
  have m1: "match_fixed ''1'' = Some (False, ''1'', [])"
    by (simp add: match_fixed_def is_digit_def)
  have p81: "parseUnits ''1'' 81 = Inl DecimalsTooLarge"
    by (simp add: parseUnits_def m1)
  have g1: "fst (getTokenAmount (test_chain 81 0) ''1'' USDC_TOKEN world0) = Inr ''1000000''"
    using getTokenAmount_falls_back [OF test_decimals p81 parseUnits_one]
    by (simp only: toString_million)
  have v1: "amount_value (False, ''1'', []) * 10 ^ 81 = 10 ^ 81"
    by (simp add: amount_value_def digits_val_def digit_val_def)
  have n1: "(10::rat) ^ 81 \<noteq> of_int 1000000" by simp
  have p18: "parseUnits (CHR ''1'' # replicate 140 (CHR ''0'')) 18 = Inl Overflow"
    by (simp add: one_zeros_parseUnits fixed_limit_def)
  have p6: "parseUnits (CHR ''1'' # replicate 140 (CHR ''0'')) 6 = Inr (10 ^ 146)"
    by (simp add: one_zeros_parseUnits fixed_limit_def)
  have g2: "fst (getTokenAmount (test_chain 18 0) (CHR ''1'' # replicate 140 (CHR ''0''))
            USDC_TOKEN world0) = Inr (bigint_toString (10 ^ 146))"
    by (rule getTokenAmount_falls_back [OF test_decimals p18 p6])
  have t2: "bigint_toString (10 ^ 146) = CHR ''1'' # replicate 146 (CHR ''0'')"
    using toString_power_of_ten [of 146] by (simp add: bigint_toString_def nat_power_eq)
  have v2: "amount_value (False, CHR ''1'' # replicate 140 (CHR ''0''), []) * 10 ^ 18 = 10 ^ 158"
  proof -
    have "digits_val [] = 0" by (simp add: digits_val_def)
    then show ?thesis by (simp add: amount_value_def one_zeros_digits)
  qed
  have n2: "(10::rat) ^ 158 \<noteq> of_int (10 ^ 146)" by simp
  have m3: "match_fixed ''1.234'' = Some (False, ''1'', ''234'')"
    by (simp add: match_fixed_def is_digit_def)
  have a3: "parseUnits ''1.234'' 2 = Inl TooManyDecimals" by (simp add: num_eval)
  have b3: "parseUnits ''1.234'' 6 = Inr 1234000" by (simp add: num_eval)
  have c3: "bigint_toString 1234000 = ''1234000''" by (simp add: num_eval)
  have g3: "fst (getTokenAmount (test_chain 2 0) ''1.234'' USDC_TOKEN world0) = Inr ''1234000''"
    using getTokenAmount_falls_back [OF test_decimals a3 b3] by (simp only: c3)
  have i3: "BigInt ''1234000'' = Some 1234000"
    using BigInt_toString [of 1234000] by (simp only: c3)
  have v3: "amount_value (False, ''1'', ''234'') * 10 ^ 2 = 617 / 5"
    by (simp add: amount_value_def digits_val_def digit_val_def)
  have n3: "(617 / 5 :: rat) \<noteq> of_int 1234000" by simp
  from m1 g1 BigInt_million v1 n1 one_zeros_match [of 140] g2 t2 v2 n2 m3 g3 i3 v3 n3
  show ?thesis by (intro conjI)
qed

text \<open>
  C4. A token with two decimals and the amount \<open>1.234\<close>: the conversion at two decimals
  is rejected, the rejection lands in the \<open>catch\<close> block meant for a failed read, and the
  amount comes back scaled by \<open>10^6\<close>: no error reaches the caller.
\<close>

theorem getTokenAmount_rescaled_by_fallback:
  "parseUnits ''1.234'' 2 = Inl TooManyDecimals
   \<and> getTokenAmount (test_chain 2 0) ''1.234'' USDC_TOKEN world0
     = (Inr ''1234000'',
        \<lparr>tick = 1,
         console = [LogError ''Error converting token amount:'' TooManyDecimals,
                    Log ''Falling back to 6 decimals for USDC''],
         sent = []\<rparr>)"
proof -
  have a: "parseUnits ''1.234'' 2 = Inl TooManyDecimals" by (simp add: num_eval)
  have b: "parseUnits ''1.234'' 6 = Inr 1234000" by (simp add: num_eval)
  have c: "bigint_toString 1234000 = ''1234000''" by (simp add: num_eval)
  show ?thesis
    by (simp add: a b c getTokenAmount_def getTokenAmount_catch_def decimals_def
        console_log_def console_error_def test_chain_def world0_def)
qed

section \<open>Deposit to Silo\<close>

lemma generate_fst:
  "fst (generateTransferFromCalldata ch a b c s)
     = (case encodeFunctionData ch ''transferFrom'' [a, b, c] of None \<Rightarrow> [] | Some d \<Rightarrow> d)"
  "fst (generateApproveCalldata ch a b c s)
     = (case encodeFunctionData ch ''approve'' [a, b, c] of None \<Rightarrow> [] | Some d \<Rightarrow> d)"
  "fst (generateDepositCalldata ch a b c s)
     = (case encodeFunctionData ch ''deposit'' [a, b, c] of None \<Rightarrow> [] | Some d \<Rightarrow> d)"
  by (simp_all add: generateTransferFromCalldata_def generateApproveCalldata_def
      generateDepositCalldata_def split: option.splits)

lemma generate_frame:
  "sent (snd (generateTransferFromCalldata ch a b c s)) = sent s
   \<and> tick (snd (generateTransferFromCalldata ch a b c s)) = tick s"
  "sent (snd (generateApproveCalldata ch a b c s)) = sent s
   \<and> tick (snd (generateApproveCalldata ch a b c s)) = tick s"
  "sent (snd (generateDepositCalldata ch a b c s)) = sent s
   \<and> tick (snd (generateDepositCalldata ch a b c s)) = tick s"
  by (simp_all add: generateTransferFromCalldata_def generateApproveCalldata_def
      generateDepositCalldata_def console_error_def split: option.splits)

text \<open>
  What \<open>approveAndDepositToSilo\<close> does once the guard has passed, the handles are there
  and the amount is converted: it builds the batch and submits it, whatever the three
  generators returned.
\<close>

lemma approveAndDepositToSilo_try_submits:
  assumes "hasEnoughUSDC ch w amount s = (Inr True, s1)"
    and "smartWalletInstance w = Some inst" and "getAccount inst = Some account"
    and "usdcContract w = Some usdc" and "siloContract w = Some silo"
    and "getTokenAmount ch amount USDC_TOKEN s1 = (Inr amountDecimals, s2)"
  shows "sent (snd (approveAndDepositToSilo_try ch w amount s)) =
           sent s @ [Batch [Erc20Approve usdc SILO amountDecimals,
                            PreparedCall silo ''multicall''
                              [PArray [fst (generateTransferFromCalldata ch USDC_TOKEN SILO
                                              amountDecimals s2),
                                       fst (generateApproveCalldata ch USDC_TOKEN B_USDC_TOKEN
                                              amountDecimals s2),
                                       fst (generateDepositCalldata ch B_USDC_TOKEN
                                              amountDecimals SILO_COLLATERAL s2)]]]
                      account]"
proof -
  obtain tf s3 where tf: "generateTransferFromCalldata ch USDC_TOKEN SILO amountDecimals s2 = (tf, s3)"
    by (cases "generateTransferFromCalldata ch USDC_TOKEN SILO amountDecimals s2")
  obtain ap s4 where ap: "generateApproveCalldata ch USDC_TOKEN B_USDC_TOKEN amountDecimals s3 = (ap, s4)"
    by (cases "generateApproveCalldata ch USDC_TOKEN B_USDC_TOKEN amountDecimals s3")
  obtain dp s5 where dp: "generateDepositCalldata ch B_USDC_TOKEN amountDecimals SILO_COLLATERAL s4 = (dp, s5)"
    by (cases "generateDepositCalldata ch B_USDC_TOKEN amountDecimals SILO_COLLATERAL s4")
  have s1: "sent s1 = sent s" using hasEnoughUSDC_sent [of ch w amount s] assms(1) by simp
  have s2: "sent s2 = sent s1" using getTokenAmount_result(3) [OF assms(6)] .
  have s3: "sent s3 = sent s2" using generate_frame(1) [of ch USDC_TOKEN SILO amountDecimals s2] tf by simp
  have s4: "sent s4 = sent s3" using generate_frame(2) [of ch USDC_TOKEN B_USDC_TOKEN amountDecimals s3] ap by simp
  have s5: "sent s5 = sent s4" using generate_frame(3) [of ch B_USDC_TOKEN amountDecimals SILO_COLLATERAL s4] dp by simp
  have f1: "fst (generateTransferFromCalldata ch USDC_TOKEN SILO amountDecimals s2) = tf"
    using tf by simp
  have f2: "fst (generateApproveCalldata ch USDC_TOKEN B_USDC_TOKEN amountDecimals s2) = ap"
    using ap generate_fst(2) [of ch USDC_TOKEN B_USDC_TOKEN amountDecimals s2]
      generate_fst(2) [of ch USDC_TOKEN B_USDC_TOKEN amountDecimals s3] by simp
  have f3: "fst (generateDepositCalldata ch B_USDC_TOKEN amountDecimals SILO_COLLATERAL s2) = dp"
    using dp generate_fst(3) [of ch B_USDC_TOKEN amountDecimals SILO_COLLATERAL s2]
      generate_fst(3) [of ch B_USDC_TOKEN amountDecimals SILO_COLLATERAL s4] by simp
  show ?thesis
    unfolding f1 f2 f3
    using assms tf ap dp s1 s2 s3 s4 s5
    by (simp add: approveAndDepositToSilo_try_def sendBatchTransaction_def console_log_def
        Let_def split: option.splits)
qed

lemma approveAndDepositToSilo_try_success:
  assumes "approveAndDepositToSilo_try ch w amount s = (Inr h, s')"
  shows "\<exists>s1 inst account usdc silo amountDecimals s2.
           hasEnoughUSDC ch w amount s = (Inr True, s1)
           \<and> smartWalletInstance w = Some inst \<and> getAccount inst = Some account
           \<and> usdcContract w = Some usdc \<and> siloContract w = Some silo
           \<and> getTokenAmount ch amount USDC_TOKEN s1 = (Inr amountDecimals, s2)"
  using assms
  by (simp add: approveAndDepositToSilo_try_def
      split: prod.splits sum.splits if_splits option.splits)

text \<open>
  The shape of the batch. Whenever \<open>approveAndDepositToSilo\<close> succeeds it has submitted
  exactly one batch, of
  exactly two steps, sent from the wallet's account: the ERC-20 approve of the Silo router
  on the USDC contract, for the converted amount, then \<open>multicall\<close> on the router. The
  multicall has one parameter, a list of exactly three entries, in this order: what the
  encoder gave for \<open>transferFrom\<close>, for \<open>approve\<close> and for \<open>deposit\<close> (the calldata, or the
  empty string where the encoder threw).
\<close>

theorem silo_deposit_batch_shape:
  assumes "approveAndDepositToSilo ch w amount s = (Inr h, s')"
  shows "\<exists>inst account usdc silo amountDecimals s2.
           smartWalletInstance w = Some inst \<and> getAccount inst = Some account
           \<and> usdcContract w = Some usdc \<and> siloContract w = Some silo
           \<and> getTokenAmount ch amount USDC_TOKEN (snd (hasEnoughUSDC ch w amount s))
               = (Inr amountDecimals, s2)
           \<and> sent s' = sent s @
               [Batch [Erc20Approve usdc SILO amountDecimals,
                       PreparedCall silo ''multicall''
                         [PArray
                            [case encodeFunctionData ch ''transferFrom''
                                    [USDC_TOKEN, SILO, amountDecimals] of
                               None \<Rightarrow> [] | Some d \<Rightarrow> d,
                             case encodeFunctionData ch ''approve''
                                    [USDC_TOKEN, B_USDC_TOKEN, amountDecimals] of
                               None \<Rightarrow> [] | Some d \<Rightarrow> d,
                             case encodeFunctionData ch ''deposit''
                                    [B_USDC_TOKEN, amountDecimals, SILO_COLLATERAL] of
                               None \<Rightarrow> [] | Some d \<Rightarrow> d]]]
                  account]"
proof -
  from assms have t: "approveAndDepositToSilo_try ch w amount s = (Inr h, s')"
    by (simp add: approveAndDepositToSilo_def log_and_rethrow_Inr)
  from approveAndDepositToSilo_try_success [OF t]
  obtain s1 inst account usdc silo amountDecimals s2 where
    f: "hasEnoughUSDC ch w amount s = (Inr True, s1)"
      "smartWalletInstance w = Some inst" "getAccount inst = Some account"
      "usdcContract w = Some usdc" "siloContract w = Some silo"
      "getTokenAmount ch amount USDC_TOKEN s1 = (Inr amountDecimals, s2)"
    by blast
  from f(1) have g: "getTokenAmount ch amount USDC_TOKEN (snd (hasEnoughUSDC ch w amount s))
      = (Inr amountDecimals, s2)" using f(6) by simp
  from approveAndDepositToSilo_try_submits [OF f] t f(2-5) g show ?thesis
    by (simp only: generate_fst snd_conv) blast
qed

lemma test_encode_one:
  "encodeFunctionData (test_chain d b) ''transferFrom'' [USDC_TOKEN, SILO, ''1000000'']
     = Some ''0xtransferFrom/0x29219dd400f2Bf60E5a23d13Be72B486D4038894/0x9Fa3C1E843d8eb1387827E5d77c07E8BB97B1e50/1000000''"
  "encodeFunctionData (test_chain d b) ''approve'' [USDC_TOKEN, B_USDC_TOKEN, ''1000000'']
     = Some ''0xapprove/0x29219dd400f2Bf60E5a23d13Be72B486D4038894/0x322e1d5384aa4ED66AeCa770B95686271de61dc3/1000000''"
  "encodeFunctionData (test_chain d b) ''deposit'' [B_USDC_TOKEN, ''1000000'', SILO_COLLATERAL]
     = Some ''0xdeposit/0x322e1d5384aa4ED66AeCa770B95686271de61dc3/1000000/1''"
  by (simp_all add: env_defs)

lemma test_approveAndDepositToSilo:
  assumes "1000000 \<le> int b"
  shows "approveAndDepositToSilo (test_chain 6 b) test_wallet ''1'' s =
     (Inr ''0x02'',
      console_log ''Deposit completed: 0x02''
        (s\<lparr>tick := Suc (Suc (Suc (Suc (tick s)))),
           sent := sent s @
             [Batch [Erc20Approve (Contract USDC_TOKEN) SILO ''1000000'',
                     PreparedCall (Contract SILO) ''multicall''
                       [PArray
                         [''0xtransferFrom/0x29219dd400f2Bf60E5a23d13Be72B486D4038894/0x9Fa3C1E843d8eb1387827E5d77c07E8BB97B1e50/1000000'',
                          ''0xapprove/0x29219dd400f2Bf60E5a23d13Be72B486D4038894/0x322e1d5384aa4ED66AeCa770B95686271de61dc3/1000000'',
                          ''0xdeposit/0x322e1d5384aa4ED66AeCa770B95686271de61dc3/1000000/1'']]]
                ''0xA11CE'']\<rparr>))"
  by (simp add: approveAndDepositToSilo_def approveAndDepositToSilo_try_def
      test_guard_passes [OF assms] test_wallet_fields test_getTokenAmount_one
      generateTransferFromCalldata_def generateApproveCalldata_def generateDepositCalldata_def
      test_encode_one sendBatchTransaction_def log_and_rethrow_def console_log_def)
    (simp add: test_chain_def console_log_def)

theorem silo_deposit_batch_shape_witness:
  "\<exists>h s'. approveAndDepositToSilo (test_chain 6 5000000) test_wallet ''1'' world0 = (Inr h, s')
     \<and> (\<exists>inst account usdc silo amountDecimals s2.
           smartWalletInstance test_wallet = Some inst \<and> getAccount inst = Some account
           \<and> usdcContract test_wallet = Some usdc \<and> siloContract test_wallet = Some silo
           \<and> getTokenAmount (test_chain 6 5000000) ''1'' USDC_TOKEN
                 (snd (hasEnoughUSDC (test_chain 6 5000000) test_wallet ''1'' world0))
               = (Inr amountDecimals, s2)
           \<and> sent s' = sent world0 @
               [Batch [Erc20Approve usdc SILO amountDecimals,
                       PreparedCall silo ''multicall''
                         [PArray
                            [case encodeFunctionData (test_chain 6 5000000) ''transferFrom''
                                    [USDC_TOKEN, SILO, amountDecimals] of
                               None \<Rightarrow> [] | Some d \<Rightarrow> d,
                             case encodeFunctionData (test_chain 6 5000000) ''approve''
                                    [USDC_TOKEN, B_USDC_TOKEN, amountDecimals] of
                               None \<Rightarrow> [] | Some d \<Rightarrow> d,
                             case encodeFunctionData (test_chain 6 5000000) ''deposit''
                                    [B_USDC_TOKEN, amountDecimals, SILO_COLLATERAL] of
                               None \<Rightarrow> [] | Some d \<Rightarrow> d]]]
                  account])"
proof -
  have b: "1000000 \<le> int 5000000" by simp
  note g = test_approveAndDepositToSilo [OF b, of world0]
  from silo_deposit_batch_shape [OF g] g show ?thesis by blast
qed

lemma test_getTokenAmount_minus_one:
  "getTokenAmount (test_chain 6 b) ''-1'' USDC_TOKEN s
     = (Inr (bigint_toString (- 1000000)), s\<lparr>tick := Suc (tick s)\<rparr>)"
proof -
  have "parseUnits ''-1'' 6 = Inr (- 1000000)" by (simp add: num_eval)
  then show ?thesis by (simp add: getTokenAmount_def decimals_def test_chain_def)
qed

lemma toString_minus_million: "bigint_toString (- 1000000) = ''-1000000''"
  by (simp add: num_eval)

lemma test_guard_negative:
  "hasEnoughUSDC (test_chain 6 b) test_wallet ''-1'' s = (Inr True, s\<lparr>tick := Suc (Suc (tick s))\<rparr>)"
  using hasEnoughUSDC_try_compare [OF test_wallet_fields(1-3), of "test_chain 6 b" "''-1''" s
      "- 1000000" "s\<lparr>tick := Suc (tick s)\<rparr>" b]
  by (simp add: hasEnoughUSDC_def log_and_rethrow_def test_getTokenAmount_minus_one test_balance)

lemma test_encode_negative:
  "encodeFunctionData (test_chain d b) ''transferFrom'' [USDC_TOKEN, SILO, ''-1000000''] = None"
  "encodeFunctionData (test_chain d b) ''approve'' [USDC_TOKEN, B_USDC_TOKEN, ''-1000000''] = None"
  "encodeFunctionData (test_chain d b) ''deposit'' [B_USDC_TOKEN, ''-1000000'', SILO_COLLATERAL] = None"
  by (simp_all add: env_defs)

lemma test_deposit_of_minus_one:
  "approveAndDepositToSilo (test_chain 6 5000000) test_wallet ''-1'' world0 =
    (Inr ''0x02'',
     \<lparr>tick = 4,
      console = [LogError ''Error generating approve calldata:'' EncodingFailed,
                 LogError ''Error generating approve calldata:'' EncodingFailed,
                 LogError ''Error generating deposit calldata:'' EncodingFailed,
                 Log ''Deposit completed: 0x02''],
      sent = [Batch [Erc20Approve (Contract USDC_TOKEN) SILO ''-1000000'',
                     PreparedCall (Contract SILO) ''multicall'' [PArray ['''', '''', '''']]]
                ''0xA11CE'']\<rparr>)"
  by (simp add: approveAndDepositToSilo_def approveAndDepositToSilo_try_def
      test_guard_negative test_wallet_fields test_getTokenAmount_minus_one
      toString_minus_million
      generateTransferFromCalldata_def generateApproveCalldata_def generateDepositCalldata_def
      test_encode_negative sendBatchTransaction_def log_and_rethrow_def)
    (simp add: test_chain_def console_log_def console_error_def world0_def)

text \<open>
  C1. The amount \<open>-1\<close> passes the guard (any balance is at least \<open>-1000000\<close>), the encoder
  rejects the negative \<open>uint256\<close> three times, each generator returns the empty string,
  and \<open>approveAndDepositToSilo\<close> still calls \<open>sendBatchTransaction\<close> with the multicall
  built from the three empty strings, and returns the hash.
\<close>

theorem empty_calldata_is_submitted:
  "fst (generateTransferFromCalldata (test_chain 6 5000000) USDC_TOKEN SILO ''-1000000'' world0) = []
   \<and> fst (generateApproveCalldata (test_chain 6 5000000) USDC_TOKEN B_USDC_TOKEN ''-1000000'' world0) = []
   \<and> fst (generateDepositCalldata (test_chain 6 5000000) B_USDC_TOKEN ''-1000000'' SILO_COLLATERAL world0) = []
   \<and> fst (approveAndDepositToSilo (test_chain 6 5000000) test_wallet ''-1'' world0) = Inr ''0x02''
   \<and> sent (snd (approveAndDepositToSilo (test_chain 6 5000000) test_wallet ''-1'' world0))
       = [Batch [Erc20Approve (Contract USDC_TOKEN) SILO ''-1000000'',
                 PreparedCall (Contract SILO) ''multicall'' [PArray ['''', '''', '''']]]
            ''0xA11CE'']"
proof -
  have gen: "fst (generateTransferFromCalldata (test_chain 6 5000000) USDC_TOKEN SILO ''-1000000'' world0) = []"
    "fst (generateApproveCalldata (test_chain 6 5000000) USDC_TOKEN B_USDC_TOKEN ''-1000000'' world0) = []"
    "fst (generateDepositCalldata (test_chain 6 5000000) B_USDC_TOKEN ''-1000000'' SILO_COLLATERAL world0) = []"
    by (simp_all add: generate_fst test_encode_negative)
  show ?thesis using gen test_deposit_of_minus_one by simp
qed


section \<open>Withdraw from Silo\<close>

text \<open>
  C8. \<open>withdrawFromSilo\<close> has no amount parameter. Whenever it succeeds it has read the
  account's bUSDC balance once and submitted exactly one transaction: \<open>redeem\<close> on the
  bUSDC contract with the parameters (that balance, the account, the account, the
  collateral tag).
\<close>

theorem withdrawFromSilo_redeems_full_balance:
  assumes "withdrawFromSilo ch w s = (Inr h, s')"
  shows "\<exists>inst account busd balance.
           smartWalletInstance w = Some inst \<and> getAccount inst = Some account
           \<and> siloBusdContract w = Some busd
           \<and> balanceOf_at ch (tick s) (contract_address busd) account = Some balance
           \<and> sent s' = sent s @
               [Single (PreparedCall busd ''redeem''
                          [PString (bigint_toString (int balance)), PString account,
                           PString account, PString SILO_COLLATERAL])
                  account]"
proof -
  from assms have "withdrawFromSilo_try ch w s = (Inr h, s')"
    by (simp add: withdrawFromSilo_def log_and_rethrow_Inr)
  then show ?thesis
    by (auto simp: withdrawFromSilo_try_def balanceOf_def sendTransaction_def console_log_def
        Let_def split: option.splits sum.splits prod.splits contract.splits)
qed

lemma test_withdrawFromSilo:
  "withdrawFromSilo (test_chain d b) test_wallet s =
     (Inr ''0x01'',
      s\<lparr>tick := Suc (Suc (tick s)),
        console := console s @ [Log (''Shares balance:  '' @ bigint_toString (int b)),
                                Log ''Withdraw from Silo completed: 0x01''],
        sent := sent s @
          [Single (PreparedCall (Contract B_USDC_TOKEN) ''redeem''
                     [PString (bigint_toString (int b)), PString ''0xA11CE'',
                      PString ''0xA11CE'', PString SILO_COLLATERAL])
             ''0xA11CE'']\<rparr>)"
  by (simp add: withdrawFromSilo_def withdrawFromSilo_try_def test_wallet_fields balanceOf_def
      sendTransaction_def log_and_rethrow_def console_log_def test_chain_def Let_def)

theorem withdrawFromSilo_redeems_full_balance_witness:
  "\<exists>h s'. withdrawFromSilo (test_chain 6 2500000) test_wallet world0 = (Inr h, s')
     \<and> (\<exists>inst account busd balance.
           smartWalletInstance test_wallet = Some inst \<and> getAccount inst = Some account
           \<and> siloBusdContract test_wallet = Some busd
           \<and> balanceOf_at (test_chain 6 2500000) (tick world0) (contract_address busd) account
               = Some balance
           \<and> sent s' = sent world0 @
               [Single (PreparedCall busd ''redeem''
                          [PString (bigint_toString (int balance)), PString account,
                           PString account, PString SILO_COLLATERAL])
                  account])"
proof -
  note g = test_withdrawFromSilo [of 6 2500000 world0]
  from withdrawFromSilo_redeems_full_balance [OF g] g show ?thesis by blast
qed

lemma toString_zero: "bigint_toString (int 0) = ''0''"
  by (simp add: num_eval)

text \<open>
  C10. With a bUSDC balance of zero \<open>withdrawFromSilo\<close> takes the same path as with any
  other balance: it submits \<open>redeem\<close> with \<open>0\<close> shares, receiver and owner the account, and
  its result is whatever the submission gives, the hash or the submission's failure.
  There is no check for an empty position.
\<close>

theorem withdrawFromSilo_zero_balance:
  assumes "smartWalletInstance w = Some inst" and "getAccount inst = Some account"
    and "siloContract w = Some silo" and "siloBusdContract w = Some busd"
    and "balanceOf_at ch (tick s) (contract_address busd) account = Some 0"
  shows "sent (snd (withdrawFromSilo ch w s)) = sent s @
           [Single (PreparedCall busd ''redeem''
                      [PString ''0'', PString account, PString account,
                       PString SILO_COLLATERAL])
              account]
         \<and> fst (withdrawFromSilo ch w s) =
             (case sendTransaction_at ch (Suc (tick s))
                     (PreparedCall busd ''redeem''
                        [PString ''0'', PString account, PString account,
                         PString SILO_COLLATERAL])
                     account of
                None \<Rightarrow> Inl SubmissionFailed
              | Some h \<Rightarrow> Inr h)"
proof -
  obtain a where a: "busd = Contract a" by (cases busd)
  show ?thesis
    using assms a toString_zero
    by (simp add: withdrawFromSilo_def withdrawFromSilo_try_def balanceOf_def
        sendTransaction_def log_and_rethrow_def console_log_def console_error_def Let_def
        split: option.splits)
qed

theorem withdrawFromSilo_zero_balance_witness:
  "balanceOf_at (test_chain 6 0) (tick world0) (contract_address (Contract B_USDC_TOKEN))
      ''0xA11CE'' = Some 0
   \<and> sent (snd (withdrawFromSilo (test_chain 6 0) test_wallet world0)) =
       [Single (PreparedCall (Contract B_USDC_TOKEN) ''redeem''
                  [PString ''0'', PString ''0xA11CE'', PString ''0xA11CE'', PString ''1''])
          ''0xA11CE'']
   \<and> fst (withdrawFromSilo (test_chain 6 0) test_wallet world0) = Inr ''0x01''"
proof -
  have b: "balanceOf_at (test_chain 6 0) (tick world0) (contract_address (Contract B_USDC_TOKEN))
      ''0xA11CE'' = Some 0"
    by (rule test_balance)
  from withdrawFromSilo_zero_balance [OF test_wallet_fields(1,2,5,6) b] b
  show ?thesis
    by (simp add: world0_def SILO_COLLATERAL_def test_chain_def)
qed

section \<open>The rotation loop in order\<close>

lemma cycle_history:
  assumes "cycle ch w cycles i (s, hist) = (r, (s', hist'))"
  shows "\<exists>t. hist' = hist @ t \<and> prefix t (cycle_schedule cycles i)
             \<and> (\<not> isl r \<longrightarrow> t = cycle_schedule cycles i)"
proof -
  have "prefix hist hist' \<and> prefix (drop (length hist) hist') (cycle_schedule cycles i)
        \<and> (\<not> isl r \<longrightarrow> drop (length hist) hist' = cycle_schedule cycles i)"
    using assms
    by (auto simp: cycle_def Let_def invoke_def sleep_def say_def AMOUNT_def ROTATE_DURATION_def
        cycle_schedule_def split: prod.splits sum.splits if_splits)
  then show ?thesis
    by (metis prefix_def append_eq_conv_conj)
qed


lemma rotate_history:
  assumes "rotate ch w cycles i (s, hist) = (r, (s', hist'))"
  shows "\<exists>t. hist' = hist @ t
             \<and> prefix t (concat (map (cycle_schedule cycles) [i..<cycles]))
             \<and> (\<not> isl r \<longrightarrow> t = concat (map (cycle_schedule cycles) [i..<cycles]))"
  using assms
proof (induction ch w cycles i "(s, hist)" arbitrary: s hist r s' hist' rule: rotate.induct)
  case (1 ch w cycles i)
  show ?case
  proof (cases "i < cycles")
    case False
    with "1.prems" show ?thesis by (simp add: rotate.simps)
  next
    case True
    obtain r1 s1 h1 where c: "cycle ch w cycles i (s, hist) = (r1, (s1, h1))"
      by (metis prod.exhaust)
    from cycle_history [OF c] obtain t1 where
      t1: "h1 = hist @ t1" "prefix t1 (cycle_schedule cycles i)"
        "\<not> isl r1 \<longrightarrow> t1 = cycle_schedule cycles i" by blast
    have up: "[i..<cycles] = i # [Suc i..<cycles]" using True by (simp add: upt_conv_Cons)
    show ?thesis
    proof (cases r1)
      case (Inl e)
      with c True "1.prems" have "r = Inl e" "hist' = h1"
        by (simp_all add: rotate.simps [of ch w cycles i])
      with t1 show ?thesis by (simp add: up)
    next
      case (Inr u)
      with c True "1.prems" have next_run:
        "rotate ch w cycles (Suc i) (s1, h1) = (r, (s', hist'))"
        by (simp add: rotate.simps [of ch w cycles i])
      from "1.hyps" [OF True c [symmetric] Inr next_run] obtain t2 where
        t2: "hist' = h1 @ t2" "prefix t2 (concat (map (cycle_schedule cycles) [Suc i..<cycles]))"
          "\<not> isl r \<longrightarrow> t2 = concat (map (cycle_schedule cycles) [Suc i..<cycles])" by blast
      from Inr t1 have full: "t1 = cycle_schedule cycles i" by simp
      have "hist' = hist @ (t1 @ t2)" using t1(1) t2(1) by simp
      moreover have "prefix (t1 @ t2) (concat (map (cycle_schedule cycles) [i..<cycles]))"
        using t2(2) full by (simp add: up)
      moreover have "\<not> isl r \<longrightarrow> t1 @ t2 = concat (map (cycle_schedule cycles) [i..<cycles])"
        using t2(3) full by (simp add: up)
      ultimately show ?thesis by blast
    qed
  qed
qed

lemma test_approveAndSupplyToAave:
  assumes "1000000 \<le> int b"
  shows "fst (approveAndSupplyToAave (test_chain 6 b) test_wallet ''1'' s) = Inr ''0x02''"
  by (simp add: approveAndSupplyToAave_def approveAndSupplyToAave_try_def
      test_guard_passes [OF assms] test_wallet_fields test_getTokenAmount_one
      sendBatchTransaction_def log_and_rethrow_def Let_def)
    (simp add: test_chain_def)

lemma test_withdrawFromAave:
  "fst (withdrawFromAave (test_chain 6 b) test_wallet ''1'' s) = Inr ''0x01''"
  by (simp add: withdrawFromAave_def withdrawFromAave_try_def
      test_wallet_fields test_getTokenAmount_one
      sendTransaction_def log_and_rethrow_def Let_def)
    (simp add: test_chain_def)

lemma test_never_fails:
  assumes "1000000 \<le> int b"
  shows "withdrawFromSilo (test_chain 6 b) test_wallet s \<noteq> (Inl e, s')"
    and "approveAndSupplyToAave (test_chain 6 b) test_wallet ''1'' s \<noteq> (Inl e, s')"
    and "withdrawFromAave (test_chain 6 b) test_wallet ''1'' s \<noteq> (Inl e, s')"
    and "approveAndDepositToSilo (test_chain 6 b) test_wallet ''1'' s \<noteq> (Inl e, s')"
  using test_withdrawFromSilo [of 6 b s] test_approveAndSupplyToAave [OF assms, of s]
    test_withdrawFromAave [of b s] test_approveAndDepositToSilo [OF assms, of s]
  by auto

lemma test_cycle_succeeds:
  assumes "1000000 \<le> int b"
  shows "fst (cycle (test_chain 6 b) test_wallet cycles i st) = Inr ()"
  by (cases st)
    (auto simp: cycle_def Let_def invoke_def sleep_def say_def AMOUNT_def
      test_never_fails [OF assms] split: prod.splits sum.splits)

lemma test_rotate_succeeds:
  assumes "1000000 \<le> int b"
  shows "fst (rotate (test_chain 6 b) test_wallet cycles i st) = Inr ()"
proof (induction "cycles - i" arbitrary: i st)
  case 0
  then show ?case by (simp add: rotate.simps)
next
  case (Suc k)
  then have lt: "i < cycles" and k: "k = cycles - Suc i" by simp_all
  obtain r st1 where c: "cycle (test_chain 6 b) test_wallet cycles i st = (r, st1)"
    by (cases "cycle (test_chain 6 b) test_wallet cycles i st")
  with test_cycle_succeeds [OF assms, of cycles i st] have r: "r = Inr ()" by simp
  show ?case
    using lt c r Suc.hyps(1) [OF k, of st1]
    by (simp add: rotate.simps [of _ _ cycles i])
qed

section \<open>The rotation loop and the world\<close>

lemma toString_fifteen: "nat_toString 15 = ''15''"
  by (simp add: nat_toString_small nat_toString_big digit_char_table)

lemma cycle_refines:
  "cycle ch w cycles i st = run_script ch w (cycle_script cycles i) st"
proof -
  obtain s h where st: "st = (s, h)" by (cases st)
  show ?thesis
  proof (cases "0 < i")
    case True
    show ?thesis
    proof (cases "i < cycles - 1")
      case True
      with \<open>0 < i\<close> show ?thesis
        by (simp add: st cycle_def cycle_script_def invoke_def sleep_def say_def Let_def
            AMOUNT_def ROTATE_DURATION_def toString_fifteen split: prod.splits sum.splits)
    next
      case False
      with \<open>0 < i\<close> show ?thesis
        by (simp add: st cycle_def cycle_script_def invoke_def sleep_def say_def Let_def
            AMOUNT_def ROTATE_DURATION_def toString_fifteen split: prod.splits sum.splits)
    qed
  next
    case False
    then have i: "i = 0" by simp
    show ?thesis
    proof (cases "0 < cycles - 1")
      case True
      then show ?thesis
        by (simp add: i st cycle_def cycle_script_def invoke_def sleep_def say_def Let_def
            AMOUNT_def ROTATE_DURATION_def toString_fifteen split: prod.splits sum.splits)
    next
      case False
      then show ?thesis
        by (simp add: i st cycle_def cycle_script_def invoke_def sleep_def say_def Let_def
            AMOUNT_def ROTATE_DURATION_def toString_fifteen split: prod.splits sum.splits)
    qed
  qed
qed

lemma run_script_append:
  "run_script ch w (xs @ ys) st =
     (case run_script ch w xs st of
        (Inl e, st') \<Rightarrow> (Inl e, st')
      | (Inr u, st') \<Rightarrow> run_script ch w ys st')"
  by (induction xs arbitrary: st) (auto split: prod.splits sum.splits)

lemma rotate_refines:
  "rotate ch w cycles i st
     = run_script ch w (concat (map (cycle_script cycles) [i..<cycles])) st"
proof (induction ch w cycles i st rule: rotate.induct)
  case (1 ch w cycles i st)
  show ?case
  proof (cases "i < cycles")
    case False
    then show ?thesis by (simp add: rotate.simps [of ch w cycles i])
  next
    case True
    then have up: "[i..<cycles] = i # [Suc i..<cycles]" by (simp add: upt_conv_Cons)
    show ?thesis
      using True "1.IH"
      by (subst rotate.simps)
        (auto simp: up run_script_append cycle_refines [symmetric]
          split: prod.splits sum.splits)
  qed
qed

lemma hasEnoughUSDC_sent_eq: "hasEnoughUSDC ch w amount s = (r, s1) \<Longrightarrow> sent s1 = sent s"
  using hasEnoughUSDC_sent [of ch w amount s] by simp

lemma getTokenAmount_sent_eq: "getTokenAmount ch a t s = (r, s1) \<Longrightarrow> sent s1 = sent s"
  using getTokenAmount_sent [of ch a t s] by simp

lemma withdrawFromSilo_methods:
  "\<exists>X. map submission_methods (sent (snd (withdrawFromSilo ch w s)))
          = map submission_methods (sent s) @ X
       \<and> prefix X [[''redeem'']]
       \<and> (\<not> isl (fst (withdrawFromSilo ch w s)) \<longrightarrow> X = [[''redeem'']])"
proof -
  have "\<exists>X. map submission_methods (sent (snd (withdrawFromSilo_try ch w s)))
          = map submission_methods (sent s) @ X
       \<and> prefix X [[''redeem'']]
       \<and> (\<not> isl (fst (withdrawFromSilo_try ch w s)) \<longrightarrow> X = [[''redeem'']])"
    by (auto simp: withdrawFromSilo_try_def balanceOf_def sendTransaction_def console_log_def
        Let_def split: option.splits sum.splits prod.splits contract.splits)
  then show ?thesis
    by (simp add: withdrawFromSilo_def log_and_rethrow_sent log_and_rethrow_fst)
qed

lemma withdrawFromAave_methods:
  "\<exists>X. map submission_methods (sent (snd (withdrawFromAave ch w amount s)))
          = map submission_methods (sent s) @ X
       \<and> prefix X [[''withdraw'']]
       \<and> (\<not> isl (fst (withdrawFromAave ch w amount s)) \<longrightarrow> X = [[''withdraw'']])"
proof -
  have "\<exists>X. map submission_methods (sent (snd (withdrawFromAave_try ch w amount s)))
          = map submission_methods (sent s) @ X
       \<and> prefix X [[''withdraw'']]
       \<and> (\<not> isl (fst (withdrawFromAave_try ch w amount s)) \<longrightarrow> X = [[''withdraw'']])"
    by (auto simp: withdrawFromAave_try_def sendTransaction_def console_log_def
        Let_def split: option.splits sum.splits prod.splits
        dest!: getTokenAmount_sent_eq)
  then show ?thesis
    by (simp add: withdrawFromAave_def log_and_rethrow_sent log_and_rethrow_fst)
qed

lemma approveAndSupplyToAave_methods:
  "\<exists>X. map submission_methods (sent (snd (approveAndSupplyToAave ch w amount s)))
          = map submission_methods (sent s) @ X
       \<and> prefix X [[''approve'', ''supply'']]
       \<and> (\<not> isl (fst (approveAndSupplyToAave ch w amount s))
            \<longrightarrow> X = [[''approve'', ''supply'']])"
proof -
  have "\<exists>X. map submission_methods (sent (snd (approveAndSupplyToAave_try ch w amount s)))
          = map submission_methods (sent s) @ X
       \<and> prefix X [[''approve'', ''supply'']]
       \<and> (\<not> isl (fst (approveAndSupplyToAave_try ch w amount s))
            \<longrightarrow> X = [[''approve'', ''supply'']])"
    by (auto simp: approveAndSupplyToAave_try_def sendBatchTransaction_def console_log_def
        Let_def split: option.splits sum.splits prod.splits
        dest!: getTokenAmount_sent_eq hasEnoughUSDC_sent_eq)
  then show ?thesis
    by (simp add: approveAndSupplyToAave_def log_and_rethrow_sent log_and_rethrow_fst)
qed

lemma generate_sent_eq:
  "generateTransferFromCalldata ch a b c s = (d, s') \<Longrightarrow> sent s' = sent s"
  "generateApproveCalldata ch a b c s = (d, s') \<Longrightarrow> sent s' = sent s"
  "generateDepositCalldata ch a b c s = (d, s') \<Longrightarrow> sent s' = sent s"
  using generate_frame(1) [of ch a b c s] generate_frame(2) [of ch a b c s]
    generate_frame(3) [of ch a b c s] by simp_all

lemma approveAndDepositToSilo_methods:
  "\<exists>X. map submission_methods (sent (snd (approveAndDepositToSilo ch w amount s)))
          = map submission_methods (sent s) @ X
       \<and> prefix X [[''approve'', ''multicall'']]
       \<and> (\<not> isl (fst (approveAndDepositToSilo ch w amount s))
            \<longrightarrow> X = [[''approve'', ''multicall'']])"
proof -
  have "\<exists>X. map submission_methods (sent (snd (approveAndDepositToSilo_try ch w amount s)))
          = map submission_methods (sent s) @ X
       \<and> prefix X [[''approve'', ''multicall'']]
       \<and> (\<not> isl (fst (approveAndDepositToSilo_try ch w amount s))
            \<longrightarrow> X = [[''approve'', ''multicall'']])"
    by (auto simp: approveAndDepositToSilo_try_def sendBatchTransaction_def console_log_def
        Let_def split: option.splits sum.splits prod.splits
        dest!: getTokenAmount_sent_eq hasEnoughUSDC_sent_eq generate_sent_eq)
  then show ?thesis
    by (simp add: approveAndDepositToSilo_def log_and_rethrow_sent log_and_rethrow_fst)
qed

lemma run_step_methods:
  assumes "run_step ch w x (s, h) = (r, (s', h'))"
  shows "\<exists>X. map submission_methods (sent s') = map submission_methods (sent s) @ X
           \<and> prefix X (step_submissions x)
           \<and> (\<not> isl r \<longrightarrow> X = step_submissions x)"
proof (cases x)
  case (Print msg)
  with assms show ?thesis by (auto simp: console_log_def)
next
  case (Perform ev)
  show ?thesis
  proof (cases ev)
    case (Slept ms)
    with Perform assms show ?thesis by auto
  next
    case Called_withdrawFromSilo
    with Perform assms withdrawFromSilo_methods [of ch w s] show ?thesis
      by (auto split: prod.splits sum.splits)
  next
    case (Called_approveAndSupplyToAave a)
    with Perform assms approveAndSupplyToAave_methods [of ch w a s] show ?thesis
      by (auto split: prod.splits sum.splits)
  next
    case (Called_withdrawFromAave a)
    with Perform assms withdrawFromAave_methods [of ch w a s] show ?thesis
      by (auto split: prod.splits sum.splits)
  next
    case (Called_approveAndDepositToSilo a)
    with Perform assms approveAndDepositToSilo_methods [of ch w a s] show ?thesis
      by (auto split: prod.splits sum.splits)
  qed
qed

lemma run_script_methods:
  assumes "run_script ch w xs (s, h) = (r, (s', h'))"
  shows "\<exists>t. map submission_methods (sent s') = map submission_methods (sent s) @ t
           \<and> prefix t (concat (map step_submissions xs))
           \<and> (\<not> isl r \<longrightarrow> t = concat (map step_submissions xs))"
  using assms
proof (induction xs arbitrary: s h)
  case Nil
  then show ?case by simp
next
  case (Cons x xs)
  obtain r1 s1 h1 where st: "run_step ch w x (s, h) = (r1, (s1, h1))"
    by (metis prod.exhaust)
  from run_step_methods [OF st] obtain X where
    X: "map submission_methods (sent s1) = map submission_methods (sent s) @ X"
      "prefix X (step_submissions x)" "\<not> isl r1 \<longrightarrow> X = step_submissions x" by blast
  show ?case
  proof (cases r1)
    case (Inl e)
    with st Cons.prems have "r = Inl e" "s' = s1" by simp_all
    with X show ?thesis by (auto simp: prefix_def)
  next
    case (Inr u)
    with st Cons.prems have "run_script ch w xs (s1, h1) = (r, (s', h'))" by simp
    from Cons.IH [OF this] obtain t where
      t: "map submission_methods (sent s') = map submission_methods (sent s1) @ t"
        "prefix t (concat (map step_submissions xs))"
        "\<not> isl r \<longrightarrow> t = concat (map step_submissions xs)" by blast
    from Inr X have full: "X = step_submissions x" by simp
    have "map submission_methods (sent s') = map submission_methods (sent s) @ (X @ t)"
      using X(1) t(1) by simp
    moreover have "prefix (X @ t) (concat (map step_submissions (x # xs)))"
      using t(2) full by simp
    moreover have "\<not> isl r \<longrightarrow> X @ t = concat (map step_submissions (x # xs))"
      using t(3) full by simp
    ultimately show ?thesis by blast
  qed
qed

lemma cycle_script_submissions:
  "concat (map step_submissions (cycle_script cycles i)) = cycle_submissions i"
  by (auto simp: cycle_script_def cycle_submissions_def)

lemma rotation_script_submissions:
  "concat (map step_submissions (rotation_script cycles)) = submission_schedule cycles"
proof -
  have "concat (map step_submissions (concat (map (cycle_script cycles) js)))
          = concat (map cycle_submissions js)" for js
    by (induction js) (simp_all add: cycle_script_submissions)
  then show ?thesis by (simp add: rotation_script_def submission_schedule_def)
qed

lemma cycle_script_events:
  "concat (map (\<lambda>x. case x of Perform e \<Rightarrow> [e] | Print m \<Rightarrow> []) (cycle_script cycles i))
     = cycle_schedule cycles i"
  by (auto simp: cycle_script_def cycle_schedule_def)

text \<open>
  C9. The rotation loop is the script run in order: its result, the world it leaves (the
  console, the submissions, the interactions) and the calls it has made are those of
  running, one after the other and up to the first error, the steps of cycle 0, then of
  cycle 1, and so on. Each cycle's steps are (the withdraw from Silo, except in cycle 0),
  the supply to Aave, a sleep, the withdraw from Aave, a sleep, the deposit to Silo. So
  the calls made are always an initial part of the schedule, and the whole schedule when
  the run ends without an error; and the submissions that reach the wallet collaborator
  are, by method, an initial part of \<open>redeem\<close> (not in cycle 0), \<open>approve + supply\<close>,
  \<open>withdraw\<close>, \<open>approve + multicall\<close>, cycle after cycle, and all of them when the run ends
  without an error. \<open>main\<close> runs the loop with ten cycles and adds one console line.
\<close>

theorem rotation_order:
  "rotate ch w cycles 0 (s, []) = run_script ch w (rotation_script cycles) (s, [])
   \<and> prefix (snd (snd (rotate ch w cycles 0 (s, [])))) (rotation_schedule cycles)
   \<and> (fst (rotate ch w cycles 0 (s, [])) = Inr ()
        \<longrightarrow> snd (snd (rotate ch w cycles 0 (s, []))) = rotation_schedule cycles)
   \<and> (\<exists>t. map submission_methods (sent (fst (snd (rotate ch w cycles 0 (s, [])))))
              = map submission_methods (sent s) @ t
            \<and> prefix t (submission_schedule cycles)
            \<and> (fst (rotate ch w cycles 0 (s, [])) = Inr ()
                 \<longrightarrow> t = submission_schedule cycles))
   \<and> snd (main ch w (s, [])) = snd (snd (rotate ch w 10 0 (s, [])))
   \<and> sent (fst (main ch w (s, []))) = sent (fst (snd (rotate ch w 10 0 (s, []))))
   \<and> concat (map (\<lambda>x. case x of Perform e \<Rightarrow> [e] | Print m \<Rightarrow> []) (cycle_script cycles i))
        = cycle_schedule cycles i
   \<and> cycle_schedule cycles 0 =
        [Called_approveAndSupplyToAave ''1'', Slept 15000, Called_withdrawFromAave ''1'',
         Slept 2000, Called_approveAndDepositToSilo ''1'']
        @ (if 0 < cycles - 1 then [Slept 15000] else [])
   \<and> cycle_schedule cycles (Suc n) =
        [Called_withdrawFromSilo, Called_approveAndSupplyToAave ''1'', Slept 15000,
         Called_withdrawFromAave ''1'', Slept 2000, Called_approveAndDepositToSilo ''1'']
        @ (if Suc n < cycles - 1 then [Slept 15000] else [])
   \<and> cycle_submissions 0 =
        [[''approve'', ''supply''], [''withdraw''], [''approve'', ''multicall'']]
   \<and> cycle_submissions (Suc n) =
        [[''redeem''], [''approve'', ''supply''], [''withdraw''], [''approve'', ''multicall'']]"
proof -
  have script: "rotate ch w cycles 0 (s, []) = run_script ch w (rotation_script cycles) (s, [])"
    by (simp add: rotate_refines rotation_script_def)
  obtain r s' hist' where run: "rotate ch w cycles 0 (s, []) = (r, (s', hist'))"
    by (metis prod.exhaust)
  have unit: "(r = Inr ()) = (\<not> isl r)" by (cases r) simp_all
  from rotate_history [OF run] have
    h: "prefix hist' (rotation_schedule cycles)"
      "\<not> isl r \<longrightarrow> hist' = rotation_schedule cycles"
    by (simp_all add: rotation_schedule_def)
  from run script have "run_script ch w (rotation_script cycles) (s, []) = (r, (s', hist'))"
    by simp
  from run_script_methods [OF this] obtain t where
    t: "map submission_methods (sent s') = map submission_methods (sent s) @ t"
      "prefix t (submission_schedule cycles)"
      "\<not> isl r \<longrightarrow> t = submission_schedule cycles"
    by (auto simp: rotation_script_submissions)
  have subs: "\<exists>t. map submission_methods (sent (fst (snd (rotate ch w cycles 0 (s, [])))))
              = map submission_methods (sent s) @ t
            \<and> prefix t (submission_schedule cycles)
            \<and> (fst (rotate ch w cycles 0 (s, [])) = Inr ()
                 \<longrightarrow> t = submission_schedule cycles)"
    using t by (auto simp: run unit)
  have hist: "prefix (snd (snd (rotate ch w cycles 0 (s, [])))) (rotation_schedule cycles)"
    "fst (rotate ch w cycles 0 (s, [])) = Inr ()
        \<longrightarrow> snd (snd (rotate ch w cycles 0 (s, []))) = rotation_schedule cycles"
    using h by (auto simp: run unit)
  have m: "snd (main ch w (s, [])) = snd (snd (rotate ch w 10 0 (s, [])))"
    "sent (fst (main ch w (s, []))) = sent (fst (snd (rotate ch w 10 0 (s, []))))"
    by (simp_all add: main_def say_def console_sent split: prod.splits sum.splits)
  have c0: "cycle_schedule cycles 0 =
        [Called_approveAndSupplyToAave ''1'', Slept 15000, Called_withdrawFromAave ''1'',
         Slept 2000, Called_approveAndDepositToSilo ''1'']
        @ (if 0 < cycles - 1 then [Slept 15000] else [])"
    by (simp add: cycle_schedule_def)
  have cn: "cycle_schedule cycles (Suc n) =
        [Called_withdrawFromSilo, Called_approveAndSupplyToAave ''1'', Slept 15000,
         Called_withdrawFromAave ''1'', Slept 2000, Called_approveAndDepositToSilo ''1'']
        @ (if Suc n < cycles - 1 then [Slept 15000] else [])"
    by (simp add: cycle_schedule_def)
  have k0: "cycle_submissions 0 =
        [[''approve'', ''supply''], [''withdraw''], [''approve'', ''multicall'']]"
    by (simp add: cycle_submissions_def)
  have kn: "cycle_submissions (Suc n) =
        [[''redeem''], [''approve'', ''supply''], [''withdraw''], [''approve'', ''multicall'']]"
    by (simp add: cycle_submissions_def)
  from script hist subs m cycle_script_events [of cycles i] c0 cn k0 kn
  show ?thesis by (intro conjI)
qed

theorem rotation_order_witness:
  "fst (rotate (test_chain 6 5000000) test_wallet 2 0 (world0, [])) = Inr ()
   \<and> snd (snd (rotate (test_chain 6 5000000) test_wallet 2 0 (world0, []))) =
       [Called_approveAndSupplyToAave ''1'', Slept 15000, Called_withdrawFromAave ''1'',
        Slept 2000, Called_approveAndDepositToSilo ''1'', Slept 15000,
        Called_withdrawFromSilo, Called_approveAndSupplyToAave ''1'', Slept 15000,
        Called_withdrawFromAave ''1'', Slept 2000, Called_approveAndDepositToSilo ''1'']
   \<and> map submission_methods
         (sent (fst (snd (rotate (test_chain 6 5000000) test_wallet 2 0 (world0, []))))) =
       [[''approve'', ''supply''], [''withdraw''], [''approve'', ''multicall''],
        [''redeem''], [''approve'', ''supply''], [''withdraw''], [''approve'', ''multicall'']]"
proof -
  have b: "1000000 \<le> int 5000000" by simp
  have ok: "fst (rotate (test_chain 6 5000000) test_wallet 2 0 (world0, [])) = Inr ()"
    by (rule test_rotate_succeeds [OF b])
  have sch: "rotation_schedule 2 =
       [Called_approveAndSupplyToAave ''1'', Slept 15000, Called_withdrawFromAave ''1'',
        Slept 2000, Called_approveAndDepositToSilo ''1'', Slept 15000,
        Called_withdrawFromSilo, Called_approveAndSupplyToAave ''1'', Slept 15000,
        Called_withdrawFromAave ''1'', Slept 2000, Called_approveAndDepositToSilo ''1'']"
    by (simp add: rotation_schedule_def cycle_schedule_def numeral_2_eq_2)
  have sub: "submission_schedule 2 =
       [[''approve'', ''supply''], [''withdraw''], [''approve'', ''multicall''],
        [''redeem''], [''approve'', ''supply''], [''withdraw''], [''approve'', ''multicall'']]"
    by (simp add: submission_schedule_def cycle_submissions_def numeral_2_eq_2)
  have w0: "sent world0 = []" by (simp add: world0_def)
  note r = rotation_order [of "test_chain 6 5000000" test_wallet 2 world0, THEN conjunct2]
  note calls = r [THEN conjunct2, THEN conjunct1]
  note subs = r [THEN conjunct2, THEN conjunct2, THEN conjunct1]
  from calls ok have "snd (snd (rotate (test_chain 6 5000000) test_wallet 2 0 (world0, [])))
          = rotation_schedule 2" by (rule mp)
  moreover from subs obtain t where
    t: "map submission_methods
         (sent (fst (snd (rotate (test_chain 6 5000000) test_wallet 2 0 (world0, [])))))
          = map submission_methods (sent world0) @ t"
      "fst (rotate (test_chain 6 5000000) test_wallet 2 0 (world0, [])) = Inr ()
         \<longrightarrow> t = submission_schedule 2" by blast
  from t ok w0 have "map submission_methods
         (sent (fst (snd (rotate (test_chain 6 5000000) test_wallet 2 0 (world0, [])))))
          = submission_schedule 2" by simp
  ultimately show ?thesis using ok sch sub by simp
qed

end
